theory Spec2Isabelle
  imports Main
begin

section \<open>JavaScript values\<close>

text \<open>
  The service handles payloads typed \<^verbatim>\<open>any\<close>: whatever \<^verbatim>\<open>response.json()\<close>
  delivered. They are modelled as the values of JSON, with \<open>JUndef\<close> for what a
  property read yields when the property is absent. An object is the list of its own
  properties in enumeration order (the order of \<^verbatim>\<open>Object.entries\<close>), each name
  once.

  Strings are lists of characters. The service concatenates them, looks for a substring,
  splits at a hyphen and matches two regular expressions over the letters A to Z, the
  digits, the hyphen and the slash: all of this takes a character as it is. Lower case,
  which depends on what letter a character is, is left to the platform.

  A number is kept as the string the engine converts it to, in a template literal or in
  \<^verbatim>\<open>join\<close>: \<^verbatim>\<open>7\<close>, \<^verbatim>\<open>0.5\<close>, \<^verbatim>\<open>-3\<close>, \<^verbatim>\<open>1e+21\<close>,
  \<^verbatim>\<open>Infinity\<close>, \<^verbatim>\<open>NaN\<close>. Every number has one such string, different
  numbers have different ones, but for the two zeros, which are both \<^verbatim>\<open>0\<close>: the
  service does nothing that tells them apart. It passes numbers on, converts them to
  strings, tests them for truthiness and compares a length with zero.
\<close>

type_synonym number = string

datatype json =
    JUndef
  | JNull
  | JBool bool
  | JNum number
  | JStr string
  | JArr "json list"
  | JObj "(string \<times> json) list"

text \<open>
  Everything the code throws is an \<^verbatim>\<open>Error\<close> object; \<^verbatim>\<open>TypeError\<close> is the
  subclass the engine raises for a property read on \<^verbatim>\<open>null\<close> or \<^verbatim>\<open>undefined\<close>,
  for a call of something that is not a function and for a conversion that finds no
  primitive value. A computation that can throw (or a promise that can reject) has a
  result in \<open>error + 'a\<close>, with \<open>Inl\<close> the error.
\<close>

datatype error = Error string | TypeError string

fun error_message :: "error \<Rightarrow> string" where
  "error_message (Error m) = m"
| "error_message (TypeError m) = m"

definition andThen :: "error + 'a \<Rightarrow> ('a \<Rightarrow> error + 'b) \<Rightarrow> error + 'b" where
  "andThen m f = (case m of Inl e \<Rightarrow> Inl e | Inr x \<Rightarrow> f x)"

lemma andThen_simps [simp]:
  "andThen (Inl e) f = Inl e"
  "andThen (Inr x) f = f x"
  by (simp_all add: andThen_def)

lemma andThen_cong [fundef_cong]:
  "m = m' \<Longrightarrow> (\<And>x. m' = Inr x \<Longrightarrow> f x = f' x) \<Longrightarrow> andThen m f = andThen m' f'"
  by (cases m') (simp_all add: andThen_def)

lemma andThen_eq_Inr:
  "andThen m f = Inr y \<longleftrightarrow> (\<exists>x. m = Inr x \<and> f x = Inr y)"
  by (cases m) simp_all

definition not_an_object :: error where
  "not_an_object = TypeError ''Cannot read properties of undefined or null''"

definition not_a_function :: error where
  "not_a_function = TypeError ''is not a function''"

definition not_primitive :: error where
  "not_primitive = TypeError ''Cannot convert object to primitive value''"

text \<open>Truthiness, as \<^verbatim>\<open>if (v)\<close>, \<^verbatim>\<open>v || w\<close> and \<^verbatim>\<open>c ? a : b\<close> test it.\<close>

fun truthy :: "json \<Rightarrow> bool" where
  "truthy JUndef = False"
| "truthy JNull = False"
| "truthy (JBool b) = b"
| "truthy (JNum n) = (n \<noteq> ''0'' \<and> n \<noteq> ''NaN'')"
| "truthy (JStr s) = (s \<noteq> [])"
| "truthy (JArr xs) = True"
| "truthy (JObj kvs) = True"

text \<open>
  The comparison \<^verbatim>\<open>n > 0\<close> of a number: it is neither zero nor \<^verbatim>\<open>NaN\<close>, and
  has no minus sign.
\<close>

definition positive :: "number \<Rightarrow> bool" where
  "positive n = (n \<noteq> ''0'' \<and> n \<noteq> ''NaN'' \<and> take 1 n \<noteq> ''-'')"

text \<open>
  \<open>js_get v k\<close> is the read \<^verbatim>\<open>v.k\<close> of a data property (none of the names the
  service reads this way is a built-in property of strings, numbers, booleans or
  arrays); \<open>js_opt v k\<close> is \<^verbatim>\<open>v?.k\<close>.
\<close>

fun js_get :: "json \<Rightarrow> string \<Rightarrow> error + json" where
  "js_get JUndef k = Inl not_an_object"
| "js_get JNull k = Inl not_an_object"
| "js_get (JObj kvs) k = Inr (case map_of kvs k of Some v \<Rightarrow> v | None \<Rightarrow> JUndef)"
| "js_get v k = Inr JUndef"

fun js_opt :: "json \<Rightarrow> string \<Rightarrow> json" where
  "js_opt (JObj kvs) k = (case map_of kvs k of Some v \<Rightarrow> v | None \<Rightarrow> JUndef)"
| "js_opt v k = JUndef"

text \<open>
  Decimal rendering of a natural number: of the status of a response in a template
  literal, of a length, and of an array index as a property name.
\<close>

fun dec :: "nat \<Rightarrow> string" where
  "dec n = (if n < 10 then [''0123456789'' ! n] else dec (n div 10) @ [''0123456789'' ! (n mod 10)])"

declare dec.simps [simp del]

text \<open>
  The decimal numeral of a natural number consists of digits and is \<^verbatim>\<open>0\<close> for zero only,
  so that a length compares to zero as the natural number does.
\<close>

lemma digit_nth: "k < 10 \<Longrightarrow> ''0123456789'' ! k \<in> set ''0123456789''"
  by (rule nth_mem) simp

lemma dec_digits: "set (dec n) \<subseteq> set ''0123456789''"
proof (induction n rule: dec.induct)
  case (1 n)
  show ?case
  proof (cases "n < 10")
    case True
    with digit_nth [of n] show ?thesis by (subst dec.simps) simp
  next
    case False
    have "n mod 10 < 10" by simp
    from digit_nth [OF this] 1 [OF False] False show ?thesis by (subst dec.simps) simp
  qed
qed

lemma dec_not_empty: "dec n \<noteq> []"
  by (subst dec.simps) simp

lemma dec_zero: "dec n = ''0'' \<longleftrightarrow> n = 0"
proof (cases "n < 10")
  case True
  then have "n \<in> {0, 1, 2, 3, 4, 5, 6, 7, 8, 9}" by auto
  then show ?thesis by (subst dec.simps) auto
next
  case False
  from dec_not_empty [of "n div 10"] have "length (dec (n div 10) @ [''0123456789'' ! (n mod 10)]) \<noteq> 1"
    by simp
  then have "dec (n div 10) @ [''0123456789'' ! (n mod 10)] \<noteq> ''0''"
    by (metis length_Cons list.size(3) One_nat_def)
  with False show ?thesis by (subst dec.simps) auto
qed

lemma positive_dec [simp]: "positive (dec n) \<longleftrightarrow> 0 < n"
proof -
  have "CHR ''N'' \<notin> set (dec n)" "CHR ''-'' \<notin> set (dec n)"
    using dec_digits [of n] by auto
  then have "dec n \<noteq> ''NaN''" "take 1 (dec n) \<noteq> ''-''"
    by (cases "dec n"; auto)+
  with dec_zero [of n] show ?thesis by (auto simp: positive_def)
qed

fun js_join :: "string \<Rightarrow> string list \<Rightarrow> string" where
  "js_join sep [] = []"
| "js_join sep [s] = s"
| "js_join sep (s # t # ss) = s @ sep @ js_join sep (t # ss)"

text \<open>\<^verbatim>\<open>String.prototype.includes\<close>.\<close>

fun str_includes :: "string \<Rightarrow> string \<Rightarrow> bool" where
  "str_includes [] sub = (sub = [])"
| "str_includes (c # cs) sub = (take (length sub) (c # cs) = sub \<or> str_includes cs sub)"

definition isUpper :: "char \<Rightarrow> bool" where
  "isUpper c = (c \<in> set ''ABCDEFGHIJKLMNOPQRSTUVWXYZ'')"

definition isDigit :: "char \<Rightarrow> bool" where
  "isDigit c = (c \<in> set ''0123456789'')"

section \<open>The two regular expressions\<close>

text \<open>
  \<open>match_key_at s\<close> matches \<^verbatim>\<open>[A-Z]+-\d+\<close> at the start of \<open>s\<close> and returns the
  matched text with the rest of \<open>s\<close>. Both repetitions are greedy. Giving back letters
  cannot help, since the next character would be a letter and not the hyphen; the digits
  end the expression, so the longest run is the first match the engine finds.
\<close>

definition match_key_at :: "string \<Rightarrow> (string \<times> string) option" where
  "match_key_at s =
     (let letters = takeWhile isUpper s in
      if letters = [] then None
      else (case dropWhile isUpper s of
              [] \<Rightarrow> None
            | c # r \<Rightarrow>
                if c \<noteq> CHR ''-'' then None
                else (let digits = takeWhile isDigit r in
                      if digits = [] then None
                      else Some (letters @ CHR ''-'' # digits, dropWhile isDigit r))))"

lemma match_key_at_shorter:
  "match_key_at s = Some (k, r) \<Longrightarrow> length r < length s"
proof -
  assume m: "match_key_at s = Some (k, r)"
  have s: "length s = length (takeWhile isUpper s) + length (dropWhile isUpper s)"
    by (metis length_append takeWhile_dropWhile_id)
  from m obtain t where d: "dropWhile isUpper s = CHR ''-'' # t" and r: "r = dropWhile isDigit t"
    by (auto simp: match_key_at_def Let_def split: if_splits list.splits)
  have "length r \<le> length t"
    unfolding r by (rule length_dropWhile_le)
  with s d show ?thesis by simp
qed

text \<open>
  \<^verbatim>\<open>text.match(/[A-Z]+-\d+/g) || []\<close>: every match, left to right, the search
  resuming where the last match ended.
\<close>

function match_all_keys :: "string \<Rightarrow> string list" where
  "match_all_keys [] = []"
| "match_all_keys (c # cs) =
     (case match_key_at (c # cs) of
        Some (k, r) \<Rightarrow> k # match_all_keys r
      | None \<Rightarrow> match_all_keys cs)"
  by pat_completeness auto
termination
  by (relation "measure length") (auto dest: match_key_at_shorter)

text \<open>
  \<^verbatim>\<open>url.match(/\/browse\/([A-Z]+-\d+)/)\<close>: the first capture of the leftmost match,
  or \<open>None\<close> where the method returns \<^verbatim>\<open>null\<close>.
\<close>

fun match_browse :: "string \<Rightarrow> string option" where
  "match_browse [] = None"
| "match_browse (c # cs) =
     (if take 8 (c # cs) = ''/browse/'' then
        (case match_key_at (drop 8 (c # cs)) of
           Some (k, r) \<Rightarrow> Some k
         | None \<Rightarrow> match_browse cs)
      else match_browse cs)"

section \<open>The normalized shapes\<close>

text \<open>
  Modelled from the spec: the declarations of \<^verbatim>\<open>CleanJiraIssue\<close>,
  \<^verbatim>\<open>CleanComment\<close> and \<^verbatim>\<open>SearchIssuesResponse\<close> (\<^verbatim>\<open>types/jira\<close>) are not
  among the sources. The records have the fields the object literals of the service give
  them, which are those of the specification's NormalizedRecord, NormalizedComment and
  Mention. A field copied verbatim from a payload is a \<open>json\<close> (\<open>JUndef\<close> when the
  payload lacks it); a field the service may leave out is an \<open>option\<close>.
\<close>

datatype source = Description | Comment

datatype relType = Mention | Link

record relatedIssue =
  rel_key :: json
  rel_summary :: json
  rel_type :: relType
  rel_relationship :: json
  rel_source :: source
  rel_commentId :: json

record issueRef =
  ref_id :: json
  ref_key :: json
  ref_summary :: json

record cleanComment =
  comment_id :: json
  body :: string
  author :: json
  comment_created :: json
  comment_updated :: json
  mentions :: "relatedIssue list"

record cleanJiraIssue =
  issue_id :: json
  issue_key :: json
  summary :: json
  status :: json
  created :: json
  updated :: json
  description :: string
  relatedIssues :: "relatedIssue list"
  storyPoints :: "json option"
  parent :: "issueRef option"
  epicLink :: "issueRef option"
  children :: "issueRef list option"
  comments :: "cleanComment list option"

record searchIssuesResponse =
  total :: json
  issues :: "cleanJiraIssue list"

section \<open>The platform\<close>

text \<open>
  What the service calls and does not define: \<^verbatim>\<open>fetch\<close> (the remote system behind
  it, answering equal requests equally during one operation), \<^verbatim>\<open>JSON.stringify\<close>,
  the rendering of \<^verbatim>\<open>URLSearchParams\<close>, the conversion of a string to a number
  as far as the comparison \<^verbatim>\<open>> 0\<close> needs it, and
  \<^verbatim>\<open>String.prototype.toLowerCase\<close>. A request is its URL with the method and
  body of \<^verbatim>\<open>init\<close>; the headers, equal on every request, are left out. Of a response
  the service reads \<^verbatim>\<open>ok\<close>, \<^verbatim>\<open>status\<close>, \<^verbatim>\<open>statusText\<close> and what
  \<^verbatim>\<open>json()\<close> settles to.
\<close>

record init =
  req_method :: string
  req_body :: "string option"

record response =
  ok :: bool
  status :: nat
  statusText :: string
  json_body :: "error + json"

record platform =
  fetch :: "string \<Rightarrow> init \<Rightarrow> error + response"
  JSON_stringify :: "json \<Rightarrow> string"
  URLSearchParams :: "(string \<times> string) list \<Rightarrow> string"
  StringToNumber_positive :: "string \<Rightarrow> bool"
  String_toLowerCase :: "string \<Rightarrow> string"

definition GET :: init where
  "GET = \<lparr>req_method = ''GET'', req_body = None\<rparr>"

section \<open>Conversions\<close>

text \<open>
  The conversion to a string, as a template literal and \<^verbatim>\<open>join\<close> perform it. An
  array converts as \<^verbatim>\<open>join(",")\<close>, where \<^verbatim>\<open>null\<close> and \<^verbatim>\<open>undefined\<close>
  elements give the empty string. A parsed object converts through
  \<^verbatim>\<open>Object.prototype.toString\<close>, unless it has an own \<^verbatim>\<open>toString\<close> property:
  a parsed value is never callable, and the conversion throws.
\<close>

fun js_to_string :: "json \<Rightarrow> error + string"
  and js_elements_to_strings :: "json list \<Rightarrow> error + string list" where
  "js_to_string JUndef = Inr ''undefined''"
| "js_to_string JNull = Inr ''null''"
| "js_to_string (JBool b) = Inr (if b then ''true'' else ''false'')"
| "js_to_string (JNum n) = Inr n"
| "js_to_string (JStr s) = Inr s"
| "js_to_string (JArr xs) =
     (case js_elements_to_strings xs of Inl e \<Rightarrow> Inl e | Inr ss \<Rightarrow> Inr (js_join '','' ss))"
| "js_to_string (JObj kvs) =
     (if ''toString'' \<in> fst ` set kvs then Inl not_primitive else Inr ''[object Object]'')"
| "js_elements_to_strings [] = Inr []"
| "js_elements_to_strings (x # xs) =
     (case (if x = JUndef \<or> x = JNull then Inr [] else js_to_string x) of
        Inl e \<Rightarrow> Inl e
      | Inr s \<Rightarrow> (case js_elements_to_strings xs of Inl e \<Rightarrow> Inl e | Inr ss \<Rightarrow> Inr (s # ss)))"

text \<open>
  \<^verbatim>\<open>v?.length > 0\<close>. Arrays and strings have a length; on a parsed object
  \<^verbatim>\<open>length\<close> is a property like any other, and the comparison converts what it
  finds to a number.
\<close>

fun js_opt_length :: "json \<Rightarrow> json" where
  "js_opt_length (JArr xs) = JNum (dec (length xs))"
| "js_opt_length (JStr s) = JNum (dec (length s))"
| "js_opt_length (JObj kvs) = js_opt (JObj kvs) ''length''"
| "js_opt_length v = JUndef"

fun js_positive :: "platform \<Rightarrow> json \<Rightarrow> error + bool" where
  "js_positive pf JUndef = Inr False"
| "js_positive pf JNull = Inr False"
| "js_positive pf (JBool b) = Inr b"
| "js_positive pf (JNum n) = Inr (positive n)"
| "js_positive pf (JStr s) = Inr (StringToNumber_positive pf s)"
| "js_positive pf v = andThen (js_to_string v) (\<lambda>s. Inr (StringToNumber_positive pf s))"

text \<open>\<^verbatim>\<open>v.toLowerCase()\<close> on a payload: only a string has the method.\<close>

fun js_toLowerCase :: "platform \<Rightarrow> json \<Rightarrow> error + string" where
  "js_toLowerCase pf (JStr s) = Inr (String_toLowerCase pf s)"
| "js_toLowerCase pf JUndef = Inl not_an_object"
| "js_toLowerCase pf JNull = Inl not_an_object"
| "js_toLowerCase pf v = Inl not_a_function"

text \<open>
  \<^verbatim>\<open>Array.prototype.map\<close> with a callback that may throw, and the call
  \<^verbatim>\<open>v.map(f)\<close> on a payload: only an array has the method.
\<close>

fun mapM :: "('a \<Rightarrow> error + 'b) \<Rightarrow> 'a list \<Rightarrow> error + 'b list" where
  "mapM f [] = Inr []"
| "mapM f (x # xs) = andThen (f x) (\<lambda>y. andThen (mapM f xs) (\<lambda>ys. Inr (y # ys)))"

definition js_map :: "(json \<Rightarrow> error + 'b) \<Rightarrow> json \<Rightarrow> error + 'b list" where
  "js_map f v =
     (case v of
        JArr xs \<Rightarrow> mapM f xs
      | JUndef \<Rightarrow> Inl not_an_object
      | JNull \<Rightarrow> Inl not_an_object
      | _ \<Rightarrow> Inl not_a_function)"

text \<open>
  \<^verbatim>\<open>v[0]\<close>, \<^verbatim>\<open>Object.entries(v)\<close> for a truthy \<open>v\<close>, and
  \<^verbatim>\<open>v?.find(f)\<close> with a callback that may throw.
\<close>

fun js_first :: "json \<Rightarrow> json" where
  "js_first (JArr (x # xs)) = x"
| "js_first (JStr (c # cs)) = JStr [c]"
| "js_first (JObj kvs) = js_opt (JObj kvs) ''0''"
| "js_first v = JUndef"

fun js_entries :: "json \<Rightarrow> (string \<times> json) list" where
  "js_entries (JObj kvs) = kvs"
| "js_entries (JArr xs) = zip (map dec [0..<length xs]) xs"
| "js_entries (JStr s) = zip (map dec [0..<length s]) (map (\<lambda>c. JStr [c]) s)"
| "js_entries v = []"

fun findM :: "('a \<Rightarrow> error + bool) \<Rightarrow> 'a list \<Rightarrow> error + 'a option" where
  "findM f [] = Inr None"
| "findM f (x # xs) = andThen (f x) (\<lambda>b. if b then Inr (Some x) else findM f xs)"

definition js_opt_find :: "(json \<Rightarrow> error + bool) \<Rightarrow> json \<Rightarrow> error + json" where
  "js_opt_find f v =
     (case v of
        JArr xs \<Rightarrow> andThen (findM f xs) (\<lambda>r. Inr (case r of Some x \<Rightarrow> x | None \<Rightarrow> JUndef))
      | JUndef \<Rightarrow> Inr JUndef
      | JNull \<Rightarrow> Inr JUndef
      | _ \<Rightarrow> Inl not_a_function)"

section \<open>extractIssueMentions\<close>

definition mention :: "source \<Rightarrow> json \<Rightarrow> string \<Rightarrow> relatedIssue" where
  "mention source commentId k =
     \<lparr>rel_key = JStr k, rel_summary = JUndef, rel_type = Mention, rel_relationship = JUndef,
      rel_source = source, rel_commentId = commentId\<rparr>"

text \<open>
  The three statements of \<^verbatim>\<open>processNode\<close>. Each returns what it pushes on
  \<^verbatim>\<open>mentions\<close>. \<^verbatim>\<open>match\<close> exists on strings only, \<^verbatim>\<open>forEach\<close> on arrays only:
  on any other truthy value the call throws.
\<close>

definition cardMentions :: "source \<Rightarrow> json \<Rightarrow> json \<Rightarrow> error + relatedIssue list" where
  "cardMentions source commentId node =
     andThen (js_get node ''type'') (\<lambda>t.
       if t = JStr ''inlineCard'' then
         andThen (js_get node ''attrs'') (\<lambda>attrs.
           let url = js_opt attrs ''url'' in
           if truthy url then
             (case url of
                JStr u \<Rightarrow>
                  Inr (case match_browse u of
                         Some k \<Rightarrow> [mention source commentId k]
                       | None \<Rightarrow> [])
              | _ \<Rightarrow> Inl not_a_function)
           else Inr [])
       else Inr [])"

definition textMentions :: "source \<Rightarrow> json \<Rightarrow> json \<Rightarrow> error + relatedIssue list" where
  "textMentions source commentId node =
     andThen (js_get node ''type'') (\<lambda>t.
       if t = JStr ''text'' then
         andThen (js_get node ''text'') (\<lambda>text.
           if truthy text then
             (case text of
                JStr s \<Rightarrow> Inr (map (mention source commentId) (match_all_keys s))
              | _ \<Rightarrow> Inl not_a_function)
           else Inr [])
       else Inr [])"

lemma size_map_of_json:
  "map_of kvs k = Some v \<Longrightarrow> size v < size (JObj kvs)"
  by (induction kvs) (auto split: if_splits)

lemma size_js_get:
  "js_get node k = Inr v \<Longrightarrow> v = JUndef \<or> size v < size node"
  by (cases node) (auto split: option.splits dest: size_map_of_json)

function processNode :: "source \<Rightarrow> json \<Rightarrow> json \<Rightarrow> error + relatedIssue list"
  and processNodes :: "source \<Rightarrow> json \<Rightarrow> json list \<Rightarrow> error + relatedIssue list" where
  "processNode source commentId node =
     andThen (cardMentions source commentId node) (\<lambda>fromCard.
     andThen (textMentions source commentId node) (\<lambda>fromText.
     andThen (js_get node ''content'') (\<lambda>content.
     andThen (if truthy content then
                (case content of
                   JArr ns \<Rightarrow> processNodes source commentId ns
                 | _ \<Rightarrow> Inl not_a_function)
              else Inr []) (\<lambda>below.
     Inr (fromCard @ fromText @ below)))))"
| "processNodes source commentId [] = Inr []"
| "processNodes source commentId (n # ns) =
     andThen (processNode source commentId n) (\<lambda>first.
     andThen (processNodes source commentId ns) (\<lambda>others.
     Inr (first @ others)))"
  by pat_completeness auto
termination
proof (relation "measure (\<lambda>x. case x of Inl (s, c, n) \<Rightarrow> size n | Inr (s, c, ns) \<Rightarrow> size_list size ns)")
  show "wf (measure (\<lambda>x. case x of Inl (s, c, n) \<Rightarrow> size n | Inr (s, c, ns) \<Rightarrow> size_list size ns))"
    by simp
next
  fix source commentId node x xa content ns
  assume "js_get node ''content'' = Inr content" and "content = JArr ns"
  then have "size (JArr ns) < size node"
    using size_js_get by blast
  then show "(Inr (source, commentId, ns), Inl (source, commentId, node))
      \<in> measure (\<lambda>x. case x of Inl (s, c, n) \<Rightarrow> size n | Inr (s, c, ns) \<Rightarrow> size_list size ns)"
    by simp
qed simp_all

text \<open>
  \<^verbatim>\<open>new Map(entries)\<close> and \<^verbatim>\<open>values()\<close>. A \<^verbatim>\<open>Map\<close> keeps its entries in
  the order in which their keys were first set; setting a key again replaces the value
  and leaves the entry where it is.
\<close>

fun map_set :: "('k \<times> 'v) list \<Rightarrow> 'k \<Rightarrow> 'v \<Rightarrow> ('k \<times> 'v) list" where
  "map_set [] k v = [(k, v)]"
| "map_set ((k', v') # es) k v =
     (if k' = k then (k', v) # es else (k', v') # map_set es k v)"

definition new_Map :: "('k \<times> 'v) list \<Rightarrow> ('k \<times> 'v) list" where
  "new_Map entries = foldl (\<lambda>m (k, v). map_set m k v) [] entries"

definition map_values :: "('k \<times> 'v) list \<Rightarrow> 'v list" where
  "map_values m = map snd m"

definition dedupe :: "relatedIssue list \<Rightarrow> relatedIssue list" where
  "dedupe ms = map_values (new_Map (map (\<lambda>m. (rel_key m, m)) ms))"

definition extractIssueMentions :: "json \<Rightarrow> source \<Rightarrow> json \<Rightarrow> error + relatedIssue list" where
  "extractIssueMentions content source commentId =
     (case content of
        JArr ns \<Rightarrow> andThen (processNodes source commentId ns) (\<lambda>ms. Inr (dedupe ms))
      | JUndef \<Rightarrow> Inl not_an_object
      | JNull \<Rightarrow> Inl not_an_object
      | _ \<Rightarrow> Inl not_a_function)"

section \<open>extractTextContent\<close>

text \<open>
  \<^verbatim>\<open>content.map(callback).join("")\<close>. \<open>extractTextParts\<close> is the call of
  \<^verbatim>\<open>map\<close>: the callback returns \<^verbatim>\<open>node.text || ""\<close> as it is, the string of
  the recursive call, or the empty string. Once every node has been mapped,
  \<^verbatim>\<open>join\<close> converts what the callback returned to strings and concatenates them.
\<close>

function extractTextContent :: "json \<Rightarrow> error + string"
  and extractTextParts :: "json list \<Rightarrow> error + json list" where
  "extractTextContent content =
     (case content of
        JArr ns \<Rightarrow>
          andThen (extractTextParts ns) (\<lambda>parts.
          andThen (js_elements_to_strings parts) (\<lambda>strings.
          Inr (js_join [] strings)))
      | _ \<Rightarrow> Inr [])"
| "extractTextParts [] = Inr []"
| "extractTextParts (node # ns) =
     andThen (andThen (js_get node ''type'') (\<lambda>t.
                if t = JStr ''text'' then
                  andThen (js_get node ''text'') (\<lambda>text.
                    Inr (if truthy text then text else JStr []))
                else
                  andThen (js_get node ''content'') (\<lambda>content.
                    if truthy content
                    then andThen (extractTextContent content) (\<lambda>below. Inr (JStr below))
                    else Inr (JStr []))))
       (\<lambda>first.
     andThen (extractTextParts ns) (\<lambda>others.
     Inr (first # others)))"
  by pat_completeness auto
termination
proof (relation "measure (\<lambda>x. case x of Inl c \<Rightarrow> size c | Inr ns \<Rightarrow> size_list size ns)")
  show "wf (measure (\<lambda>x. case x of Inl c \<Rightarrow> size c | Inr ns \<Rightarrow> size_list size ns))"
    by simp
next
  fix node :: json and ns :: "json list" and x content
  assume "js_get node ''content'' = Inr content" and "truthy content"
  then have "size content < size node"
    using size_js_get by fastforce
  then show "(Inl content, Inr (node # ns))
      \<in> measure (\<lambda>x. case x of Inl c \<Rightarrow> size c | Inr ns \<Rightarrow> size_list size ns)"
    by simp
qed simp_all

section \<open>handleFetchError and fetchJson\<close>

definition errorCategory :: "nat \<Rightarrow> string" where
  "errorCategory st =
     (if st = 401 then '' [AUTHENTICATION_ERROR]''
      else if st = 403 then '' [PERMISSION_ERROR]''
      else if st = 404 then '' [NOT_FOUND_ERROR]''
      else if st = 400 then '' [VALIDATION_ERROR]''
      else if st \<ge> 500 then '' [SERVER_ERROR]''
      else [])"

text \<open>
  The choice of \<^verbatim>\<open>message\<close> inside the \<^verbatim>\<open>try\<close> block, once the body is parsed.
  A throw in here (the body is \<^verbatim>\<open>null\<close>, or an element of \<^verbatim>\<open>errorMessages\<close>
  does not convert) is caught and leaves \<^verbatim>\<open>message\<close> as it was.
\<close>

definition chooseMessage :: "json \<Rightarrow> json \<Rightarrow> error + json" where
  "chooseMessage message errorData =
     andThen (js_get errorData ''errorMessages'') (\<lambda>errorMessages.
       case errorMessages of
         JArr (m # ms) \<Rightarrow>
           andThen (js_elements_to_strings (m # ms)) (\<lambda>ss. Inr (JStr (js_join ''; '' ss)))
       | _ \<Rightarrow>
           if truthy (js_opt errorData ''message'') then Inr (js_opt errorData ''message'')
           else if truthy (js_opt errorData ''errorMessage'') then Inr (js_opt errorData ''errorMessage'')
           else Inr message)"

text \<open>
  \<^verbatim>\<open>message\<close> and \<^verbatim>\<open>errorData\<close> as the \<^verbatim>\<open>try\<close> statement leaves them:
  \<^verbatim>\<open>errorData\<close> is assigned as soon as the body is parsed.
\<close>

definition errorBody :: "response \<Rightarrow> json \<times> json" where
  "errorBody response =
     (case json_body response of
        Inl e \<Rightarrow> (JStr (statusText response), JObj [])
      | Inr parsed \<Rightarrow>
          (case chooseMessage (JStr (statusText response)) parsed of
             Inl e \<Rightarrow> (JStr (statusText response), parsed)
           | Inr chosen \<Rightarrow> (chosen, parsed)))"

text \<open>
  What \<^verbatim>\<open>handleFetchError\<close> throws; it never returns. The template literal that
  builds \<^verbatim>\<open>errorMessage\<close> stands after the \<^verbatim>\<open>try\<close> statement: when the chosen
  message does not convert to a string, the \<^verbatim>\<open>TypeError\<close> of the conversion is what
  the method throws. What it writes to the console on the way is left out: the console
  lines below are those of the operations' own \<^verbatim>\<open>catch\<close> blocks.
\<close>

definition handleFetchError :: "platform \<Rightarrow> response \<Rightarrow> error" where
  "handleFetchError pf response =
     (if \<not> ok response then
        let (message, errorData) = errorBody response;
            details = JSON_stringify pf errorData
        in (case (if truthy message
                  then andThen (js_to_string message) (\<lambda>s. Inr ('': '' @ s))
                  else Inr [])
            of
              Inl e \<Rightarrow> e
            | Inr errorMessage \<Rightarrow>
                Error (''JIRA API Error'' @ errorCategory (status response) @ errorMessage @
                       '' (Status: '' @ dec (status response) @ '')'' @
                       CHR 0x0A # ''Details: '' @ details))
      else Error ''Unknown error occurred during fetch operation.'')"

definition fetchJson :: "platform \<Rightarrow> string \<Rightarrow> string \<Rightarrow> init \<Rightarrow> error + json" where
  "fetchJson pf baseUrl url ini =
     andThen (fetch pf (baseUrl @ url) ini) (\<lambda>response.
       if \<not> ok response then Inl (handleFetchError pf response)
       else json_body response)"

section \<open>cleanComment and cleanIssue\<close>

definition cleanComment :: "json \<Rightarrow> error + cleanComment" where
  "cleanComment comment =
     andThen (js_get comment ''body'') (\<lambda>b.
     let content = js_opt b ''content'' in
     andThen (if truthy content then extractTextContent content else Inr []) (\<lambda>text.
     andThen (if truthy content
              then extractIssueMentions content Comment (js_opt comment ''id'')
              else Inr []) (\<lambda>found.
     Inr \<lparr>comment_id = js_opt comment ''id'',
          body = text,
          author = js_opt (js_opt comment ''author'') ''displayName'',
          comment_created = js_opt comment ''created'',
          comment_updated = js_opt comment ''updated'',
          mentions = found\<rparr>)))"

text \<open>The callback of \<^verbatim>\<open>issuelinks.map\<close>.\<close>

definition issueLink :: "json \<Rightarrow> error + relatedIssue" where
  "issueLink link =
     andThen (js_get link ''inwardIssue'') (\<lambda>inwardIssue.
     let linkedIssue = (if truthy inwardIssue then inwardIssue else js_opt link ''outwardIssue'') in
     andThen (js_get (js_opt link ''type'') ''inward'') (\<lambda>inward.
     let relationship = (if truthy inward then inward else js_opt (js_opt link ''type'') ''outward'') in
     andThen (js_get linkedIssue ''key'') (\<lambda>k.
     Inr \<lparr>rel_key = k,
          rel_summary = js_opt (js_opt linkedIssue ''fields'') ''summary'',
          rel_type = Link,
          rel_relationship = relationship,
          rel_source = Description,
          rel_commentId = JUndef\<rparr>)))"

definition issueRefOf :: "json \<Rightarrow> error + issueRef" where
  "issueRefOf v =
     andThen (js_get v ''id'') (\<lambda>i.
     Inr \<lparr>ref_id = i, ref_key = js_opt v ''key'',
          ref_summary = js_opt (js_opt v ''fields'') ''summary''\<rparr>)"

text \<open>
  \<^verbatim>\<open>cleanIssue\<close>, statement by statement: the description, the object literal, and
  the six conditional updates of \<^verbatim>\<open>cleanedIssue\<close>.
\<close>

definition withStoryPoints :: "json \<Rightarrow> cleanJiraIssue \<Rightarrow> cleanJiraIssue" where
  "withStoryPoints fs cleaned =
     (if js_opt fs ''customfield_10016'' \<noteq> JUndef
      then cleaned\<lparr>storyPoints := Some (js_opt fs ''customfield_10016'')\<rparr>
      else cleaned)"

definition withMentions :: "json \<Rightarrow> cleanJiraIssue \<Rightarrow> error + cleanJiraIssue" where
  "withMentions fs cleaned =
     (let content = js_opt (js_opt fs ''description'') ''content'' in
      if truthy content then
        andThen (extractIssueMentions content Description JUndef) (\<lambda>found.
          Inr (if length found > 0 then cleaned\<lparr>relatedIssues := found\<rparr> else cleaned))
      else Inr cleaned)"

definition withLinks :: "platform \<Rightarrow> json \<Rightarrow> cleanJiraIssue \<Rightarrow> error + cleanJiraIssue" where
  "withLinks pf fs cleaned =
     andThen (js_positive pf (js_opt_length (js_opt fs ''issuelinks''))) (\<lambda>some.
       if some then
         andThen (js_map issueLink (js_opt fs ''issuelinks'')) (\<lambda>links.
           Inr (cleaned\<lparr>relatedIssues := relatedIssues cleaned @ links\<rparr>))
       else Inr cleaned)"

definition withParent :: "json \<Rightarrow> cleanJiraIssue \<Rightarrow> error + cleanJiraIssue" where
  "withParent fs cleaned =
     (if truthy (js_opt fs ''parent'') then
        andThen (issueRefOf (js_opt fs ''parent'')) (\<lambda>p. Inr (cleaned\<lparr>parent := Some p\<rparr>))
      else Inr cleaned)"

definition withEpicLink :: "json \<Rightarrow> cleanJiraIssue \<Rightarrow> cleanJiraIssue" where
  "withEpicLink fs cleaned =
     (if truthy (js_opt fs ''customfield_10014'') then
        cleaned\<lparr>epicLink := Some \<lparr>ref_id = js_opt fs ''customfield_10014'',
                                    ref_key = js_opt fs ''customfield_10014'',
                                    ref_summary = JUndef\<rparr>\<rparr>
      else cleaned)"

definition withChildren :: "platform \<Rightarrow> json \<Rightarrow> cleanJiraIssue \<Rightarrow> error + cleanJiraIssue" where
  "withChildren pf fs cleaned =
     andThen (js_positive pf (js_opt_length (js_opt fs ''subtasks''))) (\<lambda>some.
       if some then
         andThen (js_map issueRefOf (js_opt fs ''subtasks'')) (\<lambda>subtasks.
           Inr (cleaned\<lparr>children := Some subtasks\<rparr>))
       else Inr cleaned)"

definition cleanIssue :: "platform \<Rightarrow> json \<Rightarrow> error + cleanJiraIssue" where
  "cleanIssue pf issue =
     andThen (js_get issue ''fields'') (\<lambda>fs.
     let content = js_opt (js_opt fs ''description'') ''content'' in
     andThen (if truthy content then extractTextContent content else Inr []) (\<lambda>text.
     andThen (withMentions fs
                (withStoryPoints fs
                   \<lparr>issue_id = js_opt issue ''id'',
                    issue_key = js_opt issue ''key'',
                    summary = js_opt fs ''summary'',
                    status = js_opt (js_opt fs ''status'') ''name'',
                    created = js_opt fs ''created'',
                    updated = js_opt fs ''updated'',
                    description = text,
                    relatedIssues = [],
                    storyPoints = None,
                    parent = None,
                    epicLink = None,
                    children = None,
                    comments = None\<rparr>)) (\<lambda>cleaned.
     andThen (withLinks pf fs cleaned) (\<lambda>cleaned.
     andThen (withParent fs cleaned) (\<lambda>cleaned.
     withChildren pf fs (withEpicLink fs cleaned))))))"

section \<open>The aggregate operations\<close>

text \<open>
  \<^verbatim>\<open>Promise.all\<close>. The promises settle in some order, given as a list of indices
  (promises the list leaves out settle last, in index order); the first rejection in that
  order rejects the whole, and without a rejection the values come in index order.
\<close>

fun rejections :: "(error + 'a) list \<Rightarrow> error list" where
  "rejections [] = []"
| "rejections (Inl e # ps) = e # rejections ps"
| "rejections (Inr x # ps) = rejections ps"

fun fulfilments :: "(error + 'a) list \<Rightarrow> 'a list" where
  "fulfilments [] = []"
| "fulfilments (Inl e # ps) = fulfilments ps"
| "fulfilments (Inr x # ps) = x # fulfilments ps"

definition promise_all :: "nat list \<Rightarrow> (error + 'a) list \<Rightarrow> error + 'a list" where
  "promise_all settled ps =
     (case rejections (map (\<lambda>i. ps ! i) (filter (\<lambda>i. i < length ps) settled) @ ps) of
        e # es \<Rightarrow> Inl e
      | [] \<Rightarrow> Inr (fulfilments ps))"

definition issueFields :: string where
  "issueFields =
     ''id,key,summary,description,status,created,updated,parent,subtasks,customfield_10014,customfield_10016,issuelinks''"

definition searchIssues :: "platform \<Rightarrow> string \<Rightarrow> string \<Rightarrow> error + searchIssuesResponse" where
  "searchIssues pf baseUrl searchString =
     andThen (fetchJson pf baseUrl
                (''/rest/api/3/search?'' @
                 URLSearchParams pf [(''jql'', searchString), (''maxResults'', ''50''),
                                     (''fields'', issueFields),
                                     (''expand'', ''names,renderedFields'')]) GET) (\<lambda>data.
     andThen (js_get data ''total'') (\<lambda>t.
     andThen (js_map (cleanIssue pf) (js_opt data ''issues'')) (\<lambda>cleaned.
     Inr \<lparr>total = t, issues = cleaned\<rparr>)))"

text \<open>
  The merge both aggregates perform once the comments are built: the mentions of all
  comments, flattened in comment order, are appended to \<^verbatim>\<open>relatedIssues\<close>, and the
  comments are attached.
\<close>

definition withComments :: "cleanJiraIssue \<Rightarrow> cleanComment list \<Rightarrow> cleanJiraIssue" where
  "withComments issue cs =
     issue\<lparr>relatedIssues := relatedIssues issue @ concat (map mentions cs),
           comments := Some cs\<rparr>"

definition cleanComments :: "json \<Rightarrow> error + cleanComment list" where
  "cleanComments commentsData =
     andThen (js_get commentsData ''comments'') (\<lambda>cs. js_map cleanComment cs)"

text \<open>
  The request for an issue with the fields the service reads, and the request for the
  comments of an issue.
\<close>

definition fetchIssue :: "platform \<Rightarrow> string \<Rightarrow> string \<Rightarrow> error + json" where
  "fetchIssue pf baseUrl issueId =
     fetchJson pf baseUrl
       (''/rest/api/3/issue/'' @ issueId @ ''?'' @
        URLSearchParams pf [(''fields'', issueFields), (''expand'', ''names,renderedFields'')]) GET"

definition fetchComments :: "platform \<Rightarrow> string \<Rightarrow> string \<Rightarrow> error + json" where
  "fetchComments pf baseUrl issueId =
     fetchJson pf baseUrl (''/rest/api/3/issue/'' @ issueId @ ''/comment'') GET"

text \<open>The callback of \<^verbatim>\<open>data.issues.map\<close> in \<^verbatim>\<open>getEpicChildren\<close>: one promise for each issue.\<close>

definition epicChild :: "platform \<Rightarrow> string \<Rightarrow> json \<Rightarrow> error + cleanJiraIssue" where
  "epicChild pf baseUrl issue =
     andThen (js_get issue ''key'') (\<lambda>k.
     andThen (js_to_string k) (\<lambda>ks.
     andThen (fetchComments pf baseUrl ks) (\<lambda>commentsData.
     andThen (cleanIssue pf issue) (\<lambda>cleanedIssue.
     andThen (cleanComments commentsData) (\<lambda>cs.
     Inr (withComments cleanedIssue cs))))))"

definition getEpicChildren ::
  "platform \<Rightarrow> string \<Rightarrow> nat list \<Rightarrow> string \<Rightarrow> error + cleanJiraIssue list" where
  "getEpicChildren pf baseUrl settled epicKey =
     andThen (fetchJson pf baseUrl
                (''/rest/api/3/search?'' @
                 URLSearchParams pf [(''jql'', CHR 0x22 # ''Epic Link'' @ CHR 0x22 # '' = '' @ epicKey),
                                     (''maxResults'', ''100''),
                                     (''fields'', issueFields),
                                     (''expand'', ''names,renderedFields'')]) GET) (\<lambda>data.
     andThen (js_get data ''issues'') (\<lambda>found.
       case found of
         JArr xs \<Rightarrow> promise_all settled (map (epicChild pf baseUrl) xs)
       | JUndef \<Rightarrow> Inl not_an_object
       | JNull \<Rightarrow> Inl not_an_object
       | _ \<Rightarrow> Inl not_a_function))"

text \<open>
  \<^verbatim>\<open>getIssueWithComments\<close>: the joined pair of requests with its \<^verbatim>\<open>catch\<close>, the
  assembly, and the follow-up for the epic's summary. The result comes with the lines the
  operation itself writes by \<^verbatim>\<open>console.error\<close>.
\<close>

type_synonym console = "(string \<times> error) list"

definition fetchIssueAndComments ::
  "platform \<Rightarrow> string \<Rightarrow> nat list \<Rightarrow> string \<Rightarrow> error + json \<times> json" where
  "fetchIssueAndComments pf baseUrl settled issueId =
     (case promise_all settled [fetchIssue pf baseUrl issueId, fetchComments pf baseUrl issueId] of
        Inl error \<Rightarrow>
          if str_includes (error_message error) ''(Status: 404)''
          then Inl (Error (''Issue not found: '' @ issueId))
          else Inl error
      | Inr both \<Rightarrow> Inr (both ! 0, both ! 1))"

definition assembleIssue :: "platform \<Rightarrow> json \<Rightarrow> json \<Rightarrow> error + cleanJiraIssue" where
  "assembleIssue pf issueData commentsData =
     andThen (cleanIssue pf issueData) (\<lambda>issue.
     andThen (cleanComments commentsData) (\<lambda>cs.
     Inr (withComments issue cs)))"

definition epicSummary :: "platform \<Rightarrow> string \<Rightarrow> json \<Rightarrow> error + json" where
  "epicSummary pf baseUrl k =
     andThen (js_to_string k) (\<lambda>ks.
     andThen (fetchJson pf baseUrl (''/rest/api/3/issue/'' @ ks @ ''?fields=summary'') GET) (\<lambda>epicData.
     andThen (js_get epicData ''fields'') (\<lambda>fs.
     Inr (js_opt fs ''summary''))))"

definition getIssueWithComments ::
  "platform \<Rightarrow> string \<Rightarrow> nat list \<Rightarrow> string \<Rightarrow> console \<times> (error + cleanJiraIssue)" where
  "getIssueWithComments pf baseUrl settled issueId =
     (case andThen (fetchIssueAndComments pf baseUrl settled issueId)
             (\<lambda>(issueData, commentsData). assembleIssue pf issueData commentsData)
      of
        Inl e \<Rightarrow> ([], Inl e)
      | Inr issue \<Rightarrow>
          (case epicLink issue of
             None \<Rightarrow> ([], Inr issue)
           | Some link \<Rightarrow>
               (case epicSummary pf baseUrl (ref_key link) of
                  Inl error \<Rightarrow> ([(''Failed to fetch epic details:'', error)], Inr issue)
                | Inr s \<Rightarrow> ([], Inr (issue\<lparr>epicLink := Some (link\<lparr>ref_summary := s\<rparr>)\<rparr>)))))"

section \<open>findStoryPointsField and updateStoryPoints\<close>

definition storyPointsFieldNames :: "string list" where
  "storyPointsFieldNames =
     [''story points'', ''storypoints'', ''story point estimate'', ''estimate'', ''points'']"

definition commonStoryPointsFields :: "string list" where
  "commonStoryPointsFields =
     [''customfield_10002'', ''customfield_10016'', ''customfield_10020'',
      ''customfield_10026'', ''customfield_10004'', ''customfield_10008'']"

definition getCreateMeta :: "platform \<Rightarrow> string \<Rightarrow> string \<Rightarrow> string \<Rightarrow> error + json" where
  "getCreateMeta pf baseUrl projectKey issueType =
     fetchJson pf baseUrl
       (''/rest/api/3/issue/createmeta?'' @
        URLSearchParams pf
          ([(''projectKeys'', projectKey), (''expand'', ''projects.issuetypes.fields'')] @
           (if issueType \<noteq> [] then [(''issuetypeNames'', issueType)] else []))) GET"

text \<open>The callback of \<^verbatim>\<open>issuetypes?.find\<close>.\<close>

definition sameTypeName :: "platform \<Rightarrow> string \<Rightarrow> json \<Rightarrow> error + bool" where
  "sameTypeName pf issueType it =
     andThen (js_get it ''name'') (\<lambda>name.
     andThen (js_toLowerCase pf name) (\<lambda>lower.
     Inr (lower = String_toLowerCase pf issueType)))"

text \<open>
  The loop over the entries of the issue type's fields; \<open>Some\<close> is its
  \<^verbatim>\<open>return fieldId\<close>.
\<close>

fun scanFields :: "platform \<Rightarrow> (string \<times> json) list \<Rightarrow> error + string option" where
  "scanFields pf [] = Inr None"
| "scanFields pf ((fieldId, field) # rest) =
     andThen (js_get field ''name'') (\<lambda>name.
     andThen (if name = JUndef \<or> name = JNull then Inr [] else js_toLowerCase pf name) (\<lambda>fieldName.
     if list_ex (\<lambda>name. str_includes fieldName name) storyPointsFieldNames
     then Inr (Some fieldId)
     else scanFields pf rest))"

definition metadataField :: "platform \<Rightarrow> string \<Rightarrow> json \<Rightarrow> error + string option" where
  "metadataField pf issueType createMeta =
     andThen (js_get createMeta ''projects'') (\<lambda>projects.
     andThen (js_positive pf (js_opt_length projects)) (\<lambda>some.
       if some then
         andThen (js_get (js_first projects) ''issuetypes'') (\<lambda>issuetypes.
         andThen (js_opt_find (sameTypeName pf issueType) issuetypes) (\<lambda>storyIssueType.
           if truthy (js_opt storyIssueType ''fields'')
           then scanFields pf (js_entries (js_opt storyIssueType ''fields''))
           else Inr None))
       else Inr None))"

text \<open>The loop over \<^verbatim>\<open>commonStoryPointsFields\<close> against the probed issue.\<close>

fun probeFields :: "platform \<Rightarrow> json \<Rightarrow> string list \<Rightarrow> error + string option" where
  "probeFields pf fullIssue [] = Inr None"
| "probeFields pf fullIssue (fieldId # rest) =
     andThen (js_get fullIssue ''names'') (\<lambda>names.
       if truthy names \<and> truthy (js_opt names fieldId) then
         andThen (js_toLowerCase pf (js_opt names fieldId)) (\<lambda>fieldName.
           if str_includes fieldName ''story'' \<and> str_includes fieldName ''point''
           then Inr (Some fieldId)
           else probeFields pf fullIssue rest)
       else probeFields pf fullIssue rest)"

text \<open>
  The search for an existing issue of the project and issue type, and the probe of the
  first issue found.
\<close>

definition probeIssue :: "platform \<Rightarrow> string \<Rightarrow> string \<Rightarrow> string \<Rightarrow> error + string option" where
  "probeIssue pf baseUrl projectKey issueType =
     andThen (searchIssues pf baseUrl
                (''project = '' @ projectKey @ '' AND issuetype = '' @
                 CHR 0x22 # issueType @ [CHR 0x22])) (\<lambda>searchResult.
       case issues searchResult of
         [] \<Rightarrow> Inr None
       | testIssue # others \<Rightarrow>
           andThen (js_to_string (issue_key testIssue)) (\<lambda>testIssueKey.
           andThen (fetchJson pf baseUrl
                      (''/rest/api/3/issue/'' @ testIssueKey @ ''?expand=names'') GET) (\<lambda>fullIssue.
           probeFields pf fullIssue commonStoryPointsFields)))"

text \<open>The \<^verbatim>\<open>try\<close> block of \<^verbatim>\<open>findStoryPointsField\<close>, and the method with its \<^verbatim>\<open>catch\<close>.\<close>

definition discoverField :: "platform \<Rightarrow> string \<Rightarrow> string \<Rightarrow> string \<Rightarrow> error + string option" where
  "discoverField pf baseUrl projectKey issueType =
     andThen (getCreateMeta pf baseUrl projectKey issueType) (\<lambda>createMeta.
     andThen (metadataField pf issueType createMeta) (\<lambda>found.
       case found of
         Some fieldId \<Rightarrow> Inr (Some fieldId)
       | None \<Rightarrow> probeIssue pf baseUrl projectKey issueType))"

definition findStoryPointsField ::
  "platform \<Rightarrow> string \<Rightarrow> string \<Rightarrow> string \<Rightarrow> console \<times> (error + string option)" where
  "findStoryPointsField pf baseUrl projectKey issueType =
     (case discoverField pf baseUrl projectKey issueType of
        Inl error \<Rightarrow> ([(''Error finding story points field:'', error)], Inr None)
      | Inr found \<Rightarrow> ([], Inr found))"

text \<open>
  \<^verbatim>\<open>updateIssue\<close> and \<^verbatim>\<open>updateStoryPoints\<close>, with the update requests they send.
\<close>

definition updateIssue ::
  "platform \<Rightarrow> string \<Rightarrow> string \<Rightarrow> json \<Rightarrow> (string \<times> init) list \<times> (error + unit)" where
  "updateIssue pf baseUrl issueKey fs =
     (let url = baseUrl @ ''/rest/api/3/issue/'' @ issueKey;
          ini = \<lparr>req_method = ''PUT'', req_body = Some (JSON_stringify pf (JObj [(''fields'', fs)]))\<rparr>
      in ([(url, ini)],
          andThen (fetch pf url ini) (\<lambda>response.
            if \<not> ok response then Inl (handleFetchError pf response) else Inr ())))"

definition notFoundMessage :: "string \<Rightarrow> string" where
  "notFoundMessage projectKey =
     ''Story points field not found for project '' @ projectKey @
     ''. Please check if story points are configured for this project and issue type.''"

text \<open>\<^verbatim>\<open>issueKey.split('-')[0]\<close>: what stands before the first hyphen.\<close>

definition projectKeyOf :: "string \<Rightarrow> string" where
  "projectKeyOf issueKey = takeWhile (\<lambda>c. c \<noteq> CHR ''-'') issueKey"

definition updateStoryPoints ::
  "platform \<Rightarrow> string \<Rightarrow> string \<Rightarrow> number \<Rightarrow> console \<times> (string \<times> init) list \<times> (error + unit)" where
  "updateStoryPoints pf baseUrl issueKey points =
     (let projectKey = projectKeyOf issueKey;
          (written, found) = findStoryPointsField pf baseUrl projectKey ''Story''
      in case found of
           Inl e \<Rightarrow> (written, [], Inl e)
         | Inr None \<Rightarrow> (written, [], Inl (Error (notFoundMessage projectKey)))
         | Inr (Some storyPointsFieldId) \<Rightarrow>
             if storyPointsFieldId = [] then (written, [], Inl (Error (notFoundMessage projectKey)))
             else (let (sent, r) = updateIssue pf baseUrl issueKey (JObj [(storyPointsFieldId, JNum points)])
                   in (written, sent, r)))"

section \<open>A platform for the examples\<close>

text \<open>
  The examples run on a platform that takes the characters as those of Latin-1, the
  code units below 256. Lower case maps the letters A to Z and the capital letters from
  \<^verbatim>\<open>U+00C0\<close> to \<^verbatim>\<open>U+00DE\<close> (all but the multiplication sign) to the letter 32
  places further on, and leaves every other character as it is.
\<close>

definition capitals :: string where
  "capitals =
     ''ABCDEFGHIJKLMNOPQRSTUVWXYZ'' @
     [CHR 0xC0, CHR 0xC1, CHR 0xC2, CHR 0xC3, CHR 0xC4, CHR 0xC5, CHR 0xC6, CHR 0xC7,
      CHR 0xC8, CHR 0xC9, CHR 0xCA, CHR 0xCB, CHR 0xCC, CHR 0xCD, CHR 0xCE, CHR 0xCF,
      CHR 0xD0, CHR 0xD1, CHR 0xD2, CHR 0xD3, CHR 0xD4, CHR 0xD5, CHR 0xD6,
      CHR 0xD8, CHR 0xD9, CHR 0xDA, CHR 0xDB, CHR 0xDC, CHR 0xDD, CHR 0xDE]"

definition smalls :: string where
  "smalls =
     ''abcdefghijklmnopqrstuvwxyz'' @
     [CHR 0xE0, CHR 0xE1, CHR 0xE2, CHR 0xE3, CHR 0xE4, CHR 0xE5, CHR 0xE6, CHR 0xE7,
      CHR 0xE8, CHR 0xE9, CHR 0xEA, CHR 0xEB, CHR 0xEC, CHR 0xED, CHR 0xEE, CHR 0xEF,
      CHR 0xF0, CHR 0xF1, CHR 0xF2, CHR 0xF3, CHR 0xF4, CHR 0xF5, CHR 0xF6,
      CHR 0xF8, CHR 0xF9, CHR 0xFA, CHR 0xFB, CHR 0xFC, CHR 0xFD, CHR 0xFE]"

definition lowerChar :: "char \<Rightarrow> char" where
  "lowerChar c = (case map_of (zip capitals smalls) c of Some l \<Rightarrow> l | None \<Rightarrow> c)"

definition toLowerCase :: "string \<Rightarrow> string" where
  "toLowerCase s = map lowerChar s"

text \<open>
  The rendering of \<^verbatim>\<open>URLSearchParams\<close>: names and values in UTF-8, percent-encoded
  byte by byte but for letters, digits and four marks, a space as \<^verbatim>\<open>+\<close>, joined by
  \<^verbatim>\<open>=\<close> and \<^verbatim>\<open>&\<close>.
\<close>

definition utf8 :: "char \<Rightarrow> nat list" where
  "utf8 c = (if of_char c < (128 :: nat) then [of_char c]
             else [192 + of_char c div 64, 128 + of_char c mod 64])"

definition percent :: "nat \<Rightarrow> string" where
  "percent b = [CHR ''%'', ''0123456789ABCDEF'' ! (b div 16), ''0123456789ABCDEF'' ! (b mod 16)]"

definition urlencoded :: "char \<Rightarrow> string" where
  "urlencoded c =
     (if c \<in> set ''ABCDEFGHIJKLMNOPQRSTUVWXYZabcdefghijklmnopqrstuvwxyz0123456789*-._'' then [c]
      else if c = CHR '' '' then ''+''
      else concat (map percent (utf8 c)))"

definition form_urlencoded :: "(string \<times> string) list \<Rightarrow> string" where
  "form_urlencoded ps =
     js_join ''&'' (map (\<lambda>(k, v). concat (map urlencoded k) @ ''='' @ concat (map urlencoded v)) ps)"

text \<open>
  The remote system answers a request by its URL, from a table, and the connection fails
  for any URL the table does not have. The examples stringify no value but the empty
  object where the text is used, and compare no string with zero.
\<close>

definition serving :: "(string \<times> response) list \<Rightarrow> platform" where
  "serving table =
     \<lparr>fetch = (\<lambda>url ini. case map_of table url of
                            Some r \<Rightarrow> Inr r
                          | None \<Rightarrow> Inl (TypeError ''fetch failed'')),
      JSON_stringify = (\<lambda>v. ''{}''),
      URLSearchParams = form_urlencoded,
      StringToNumber_positive = (\<lambda>s. False),
      String_toLowerCase = toLowerCase\<rparr>"

definition ok_response :: "json \<Rightarrow> response" where
  "ok_response v = \<lparr>ok = True, status = 200, statusText = ''OK'', json_body = Inr v\<rparr>"

definition failed_response :: "nat \<Rightarrow> string \<Rightarrow> json \<Rightarrow> response" where
  "failed_response st reason v =
     \<lparr>ok = False, status = st, statusText = reason, json_body = Inr v\<rparr>"

lemma serving_fields [simp]:
  "URLSearchParams (serving table) = form_urlencoded"
  "JSON_stringify (serving table) = (\<lambda>v. ''{}'')"
  "String_toLowerCase (serving table) = toLowerCase"
  by (simp_all add: serving_def)

lemma fetch_serving:
  "fetch (serving table) url ini =
     (case map_of table url of Some r \<Rightarrow> Inr r | None \<Rightarrow> Inl (TypeError ''fetch failed''))"
  by (simp add: serving_def)

lemma fetchJson_serving:
  "fetchJson (serving table) [] url GET =
     (case map_of table url of
        None \<Rightarrow> Inl (TypeError ''fetch failed'')
      | Some r \<Rightarrow> if \<not> ok r then Inl (handleFetchError (serving table) r) else json_body r)"
  by (simp add: fetchJson_def serving_def split: option.splits)

lemma response_fields:
  "ok (ok_response v)"
  "json_body (ok_response v) = Inr v"
  "\<not> ok (failed_response st reason b)"
  "status (failed_response st reason b) = st"
  "statusText (failed_response st reason b) = reason"
  "json_body (failed_response st reason b) = Inr b"
  by (simp_all add: ok_response_def failed_response_def)

text \<open>The query string that asks for the fields of a record, as this platform renders it.\<close>

definition issue_query :: string where
  "issue_query =
     ''fields=id%2Ckey%2Csummary%2Cdescription%2Cstatus%2Ccreated%2Cupdated%2Cparent%2Csubtasks%2Ccustomfield_10014%2Ccustomfield_10016%2Cissuelinks&expand=names%2CrenderedFields''"

lemma issue_query_encoded:
  "form_urlencoded
     [(''fields'',
       ''id,key,summary,description,status,created,updated,parent,subtasks,customfield_10014,customfield_10016,issuelinks''),
      (''expand'', ''names,renderedFields'')] = issue_query"
  by code_simp

lemma epic_query_encoded:
  "form_urlencoded
     [(''jql'', [CHR 0x22] @ ''Epic Link'' @ [CHR 0x22] @ '' = '' @ ''EP-1''),
      (''maxResults'', ''100''),
      (''fields'',
       ''id,key,summary,description,status,created,updated,parent,subtasks,customfield_10014,customfield_10016,issuelinks''),
      (''expand'', ''names,renderedFields'')] =
   ''jql=%22Epic+Link%22+%3D+EP-1&maxResults=100&'' @ issue_query"
  by code_simp

section \<open>Deduplication by identifier\<close>

text \<open>
  The elements of a list in the order of their first occurrences, each once: what the
  claim calls the position of an identifier's first occurrence in traversal order.
\<close>

fun first_occurrences :: "'a list \<Rightarrow> 'a list" where
  "first_occurrences [] = []"
| "first_occurrences (x # xs) = x # filter (\<lambda>y. y \<noteq> x) (first_occurrences xs)"

lemma first_occurrences_filter:
  "first_occurrences (filter P xs) = filter P (first_occurrences xs)"
proof (induction xs)
  case Nil
  then show ?case by simp
next
  case (Cons x xs)
  show ?case
  proof (cases "P x")
    case True
    with Cons show ?thesis by (simp add: conj_commute)
  next
    case False
    then have "filter P (filter (\<lambda>y. y \<noteq> x) (first_occurrences xs)) = filter P (first_occurrences xs)"
      by (auto intro: filter_cong)
    with False Cons show ?thesis by simp
  qed
qed

lemma set_first_occurrences [simp]: "set (first_occurrences xs) = set xs"
  by (induction xs) auto

lemma distinct_first_occurrences [simp]: "distinct (first_occurrences xs)"
  by (induction xs) auto

lemma keys_map_set:
  "map fst (map_set m k v) = (if k \<in> set (map fst m) then map fst m else map fst m @ [k])"
  by (induction m) force+

lemma map_of_map_set:
  "map_of (map_set m k v) = (map_of m)(k \<mapsto> v)"
  by (induction m) (auto)

lemma keys_foldl_map_set:
  "distinct (map fst m) \<Longrightarrow>
   map fst (foldl (\<lambda>m (k, v). map_set m k v) m es) =
     map fst m @ first_occurrences (filter (\<lambda>k. k \<notin> fst ` set m) (map fst es))"
proof (induction es arbitrary: m)
  case Nil
  then show ?case by simp
next
  case (Cons e es)
  obtain k v where e: "e = (k, v)" by (cases e)
  show ?case
  proof (cases "k \<in> fst ` set m")
    case True
    then have "k \<in> set (map fst m)" by simp
    then have km: "map fst (map_set m k v) = map fst m"
      by (simp add: keys_map_set)
    then have "set (map fst (map_set m k v)) = set (map fst m)"
      by simp
    then have s: "fst ` set (map_set m k v) = fst ` set m"
      by simp
    from Cons.prems km have "distinct (map fst (map_set m k v))" by simp
    from Cons.IH [OF this] km s True e show ?thesis by simp
  next
    case False
    then have "k \<notin> set (map fst m)" by simp
    then have km: "map fst (map_set m k v) = map fst m @ [k]"
      by (simp add: keys_map_set)
    then have "set (map fst (map_set m k v)) = set (map fst m @ [k])"
      by simp
    then have s: "fst ` set (map_set m k v) = insert k (fst ` set m)"
      by simp
    from Cons.prems km False have "distinct (map fst (map_set m k v))" by simp
    from Cons.IH [OF this]
    have "map fst (foldl (\<lambda>m (k, v). map_set m k v) (map_set m k v) es) =
        map fst m @ k # first_occurrences (filter (\<lambda>x. x \<notin> insert k (fst ` set m)) (map fst es))"
      by (simp add: km s)
    moreover have "filter (\<lambda>x. x \<notin> insert k (fst ` set m)) (map fst es) =
        filter (\<lambda>y. y \<noteq> k) (filter (\<lambda>k. k \<notin> fst ` set m) (map fst es))"
      by (auto intro: filter_cong)
    ultimately show ?thesis
      using False e by (simp add: first_occurrences_filter conj_commute)
  qed
qed

lemma keys_new_Map: "map fst (new_Map es) = first_occurrences (map fst es)"
  using keys_foldl_map_set [of "[]" es] by (simp add: new_Map_def)

lemma map_of_foldl_map_set:
  "map_of (foldl (\<lambda>m (k, v). map_set m k v) m es) = map_of m ++ map_of (rev es)"
proof (induction es arbitrary: m)
  case Nil
  then show ?case by simp
next
  case (Cons e es)
  obtain k v where e: "e = (k, v)" by (cases e)
  have "map_of (foldl (\<lambda>m (k, v). map_set m k v) m (e # es)) =
      (map_of m)(k \<mapsto> v) ++ map_of (rev es)"
    using Cons.IH [of "map_set m k v"] e by (simp only: foldl_Cons prod.case map_of_map_set)
  also have "\<dots> = map_of m ++ map_of (rev (e # es))"
    by (rule ext) (simp add: e map_add_def split: option.splits)
  finally show ?case .
qed

lemma map_of_new_Map: "map_of (new_Map es) = map_of (rev es)"
  using map_of_foldl_map_set [of "[]" es] by (simp add: new_Map_def)

lemma map_of_rev_keyed:
  "map_of (rev (map (\<lambda>m. (f m, m)) ms)) k = Some r \<Longrightarrow>
   f r = k \<and> r = last (filter (\<lambda>m. f m = k) ms)"
  by (induction ms rule: rev_induct) (auto split: if_splits)

lemma new_Map_entry:
  assumes "(k, r) \<in> set (new_Map (map (\<lambda>m. (f m, m)) ms))"
  shows "f r = k \<and> r = last (filter (\<lambda>m. f m = k) ms)"
proof -
  have "distinct (map fst (new_Map (map (\<lambda>m. (f m, m)) ms)))"
    by (simp add: keys_new_Map)
  with assms have "map_of (new_Map (map (\<lambda>m. (f m, m)) ms)) k = Some r"
    by simp
  then have "map_of (rev (map (\<lambda>m. (f m, m)) ms)) k = Some r"
    by (simp only: map_of_new_Map)
  then show ?thesis
    by (rule map_of_rev_keyed)
qed

lemma dedupe_keys: "map rel_key (dedupe ms) = first_occurrences (map rel_key ms)"
proof -
  let ?M = "new_Map (map (\<lambda>m. (rel_key m, m)) ms)"
  have "map rel_key (map snd ?M) = map fst ?M"
    using new_Map_entry [where f = rel_key and ms = ms] by (auto simp: map_eq_conv)
  also have "\<dots> = first_occurrences (map rel_key ms)"
    by (simp add: keys_new_Map comp_def)
  finally show ?thesis
    by (simp add: dedupe_def map_values_def)
qed

lemma dedupe_last:
  "r \<in> set (dedupe ms) \<Longrightarrow> r = last (filter (\<lambda>m. rel_key m = rel_key r) ms)"
proof -
  assume "r \<in> set (dedupe ms)"
  then obtain k where "(k, r) \<in> set (new_Map (map (\<lambda>m. (rel_key m, m)) ms))"
    by (auto simp: dedupe_def map_values_def)
  from new_Map_entry [OF this]
  have "rel_key r = k" and "r = last (filter (\<lambda>m. rel_key m = k) ms)"
    by blast+
  then show ?thesis by blast
qed

text \<open>
  Claim C1. Whenever \<^verbatim>\<open>extractIssueMentions\<close> returns, its argument is an array and
  the depth-first walk over it has pushed a list \<open>walk\<close> of mentions. In the returned
  list every identifier of the walk occurs exactly once; the identifiers stand in the
  order of their first occurrences in the walk; and the entry returned for an identifier
  is the last mention of the walk with that identifier.
\<close>

theorem extractIssueMentions_dedup:
  assumes "extractIssueMentions content source commentId = Inr result"
  shows "\<exists>ns walk. content = JArr ns \<and> processNodes source commentId ns = Inr walk \<and>
           distinct (map rel_key result) \<and>
           set (map rel_key result) = set (map rel_key walk) \<and>
           map rel_key result = first_occurrences (map rel_key walk) \<and>
           (\<forall>r \<in> set result. r = last (filter (\<lambda>m. rel_key m = rel_key r) walk))"
proof -
  from assms obtain ns walk where c: "content = JArr ns"
    and w: "processNodes source commentId ns = Inr walk" and r: "result = dedupe walk"
    by (auto simp: extractIssueMentions_def andThen_eq_Inr split: json.splits)
  have k: "map rel_key result = first_occurrences (map rel_key walk)"
    unfolding r by (rule dedupe_keys)
  have "distinct (map rel_key result)"
    unfolding k by simp
  moreover have "set (map rel_key result) = set (map rel_key walk)"
    unfolding k by simp
  moreover have "\<forall>r \<in> set result. r = last (filter (\<lambda>m. rel_key m = rel_key r) walk)"
    unfolding r by (auto dest: dedupe_last)
  ultimately show ?thesis
    using c w k by blast
qed

text \<open>
  A paragraph holding the text \<^verbatim>\<open>A-1 B-2 A-1\<close> and an inline card for
  \<^verbatim>\<open>B-2\<close>: the walk pushes four mentions, two are returned.
\<close>

theorem extractIssueMentions_dedup_witness:
  "extractIssueMentions
     (JArr [JObj [(''type'', JStr ''paragraph''),
                  (''content'', JArr [JObj [(''type'', JStr ''text''), (''text'', JStr ''A-1 B-2 A-1'')],
                                      JObj [(''type'', JStr ''inlineCard''),
                                            (''attrs'', JObj [(''url'', JStr ''/browse/B-2'')])]])]])
     Description JUndef
   = Inr [mention Description JUndef ''A-1'', mention Description JUndef ''B-2''] \<and>
   processNodes Description JUndef
     [JObj [(''type'', JStr ''paragraph''),
                  (''content'', JArr [JObj [(''type'', JStr ''text''), (''text'', JStr ''A-1 B-2 A-1'')],
                                      JObj [(''type'', JStr ''inlineCard''),
                                            (''attrs'', JObj [(''url'', JStr ''/browse/B-2'')])]])]]
   = Inr [mention Description JUndef ''A-1'', mention Description JUndef ''B-2'',
          mention Description JUndef ''A-1'', mention Description JUndef ''B-2''] \<and>
   distinct (map rel_key [mention Description JUndef ''A-1'', mention Description JUndef ''B-2''])"
proof -
  have w: "processNodes Description JUndef
     [JObj [(''type'', JStr ''paragraph''),
                  (''content'', JArr [JObj [(''type'', JStr ''text''), (''text'', JStr ''A-1 B-2 A-1'')],
                                      JObj [(''type'', JStr ''inlineCard''),
                                            (''attrs'', JObj [(''url'', JStr ''/browse/B-2'')])]])]]
   = Inr [mention Description JUndef ''A-1'', mention Description JUndef ''B-2'',
          mention Description JUndef ''A-1'', mention Description JUndef ''B-2'']"
    by (simp add: cardMentions_def textMentions_def match_key_at_def isUpper_def isDigit_def Let_def)
  have e: "extractIssueMentions
     (JArr [JObj [(''type'', JStr ''paragraph''),
                  (''content'', JArr [JObj [(''type'', JStr ''text''), (''text'', JStr ''A-1 B-2 A-1'')],
                                      JObj [(''type'', JStr ''inlineCard''),
                                            (''attrs'', JObj [(''url'', JStr ''/browse/B-2'')])]])]])
     Description JUndef
   = Inr [mention Description JUndef ''A-1'', mention Description JUndef ''B-2'']"
    by (simp only: extractIssueMentions_def json.case w andThen_simps)
      (simp add: dedupe_def new_Map_def map_values_def mention_def)
  from extractIssueMentions_dedup [OF e]
  have "distinct (map rel_key [mention Description JUndef ''A-1'', mention Description JUndef ''B-2''])"
    by blast
  with w e show ?thesis
    by (simp only: simp_thms)
qed

section \<open>Documents\<close>

text \<open>
  The vocabulary of the claims about documents. \<open>childNodes\<close> is the child list of a node
  (empty when \<^verbatim>\<open>content\<close> is not an array); a text leaf is a node tagged
  \<^verbatim>\<open>"text"\<close>, its payload the string under \<^verbatim>\<open>text\<close>.
\<close>

definition childNodes :: "json \<Rightarrow> json list" where
  "childNodes node = (case js_opt node ''content'' of JArr ns \<Rightarrow> ns | _ \<Rightarrow> [])"

definition isTextLeaf :: "json \<Rightarrow> bool" where
  "isTextLeaf node = (js_opt node ''type'' = JStr ''text'')"

definition isInlineCard :: "json \<Rightarrow> bool" where
  "isInlineCard node = (js_opt node ''type'' = JStr ''inlineCard'')"

definition textPayload :: "json \<Rightarrow> string" where
  "textPayload node = (case js_opt node ''text'' of JStr s \<Rightarrow> s | _ \<Rightarrow> [])"

lemma size_js_opt: "size (js_opt node k) \<le> size node"
  by (cases node) (auto split: option.splits dest: size_map_of_json less_imp_le)

lemma size_childNodes: "size_list size (childNodes node) \<le> size node"
proof (cases "js_opt node ''content''")
  case (JArr ns)
  with size_js_opt [of node "''content''"] show ?thesis
    by (simp add: childNodes_def)
qed (simp_all add: childNodes_def)

text \<open>
  Depth-first document order: a node, then what lies below it, then its later siblings.
  Nothing lies below a text leaf.
\<close>

function document_order :: "json list \<Rightarrow> json list" where
  "document_order [] = []"
| "document_order (n # ns) =
     n # (if isTextLeaf n then [] else document_order (childNodes n)) @ document_order ns"
  by pat_completeness auto
termination
  by (relation "measure (size_list size)") (auto simp: size_childNodes le_imp_less_Suc trans_le_add1)

text \<open>Every node reachable through child lists, below text nodes too.\<close>

function all_nodes :: "json list \<Rightarrow> json list" where
  "all_nodes [] = []"
| "all_nodes (n # ns) = n # all_nodes (childNodes n) @ all_nodes ns"
  by pat_completeness auto
termination
  by (relation "measure (size_list size)") (auto simp: size_childNodes le_imp_less_Suc trans_le_add1)

definition text_leaves :: "json list \<Rightarrow> json list" where
  "text_leaves ns = filter isTextLeaf (document_order ns)"

text \<open>
  A node the text extractor can read: it is neither \<^verbatim>\<open>null\<close> nor
  \<^verbatim>\<open>undefined\<close>, and as a text leaf its payload is a string or falsy. A well-formed
  node is one the mention extractor can read as well: the \<^verbatim>\<open>url\<close> of an inline card
  is a string or falsy, and \<^verbatim>\<open>content\<close> is an array or falsy.
\<close>

definition string_or_falsy :: "json \<Rightarrow> bool" where
  "string_or_falsy v = (case v of JStr s \<Rightarrow> True | _ \<Rightarrow> \<not> truthy v)"

definition array_or_falsy :: "json \<Rightarrow> bool" where
  "array_or_falsy v = (case v of JArr xs \<Rightarrow> True | _ \<Rightarrow> \<not> truthy v)"

definition readable_node :: "json \<Rightarrow> bool" where
  "readable_node n =
     (n \<noteq> JUndef \<and> n \<noteq> JNull \<and> (isTextLeaf n \<longrightarrow> string_or_falsy (js_opt n ''text'')))"

definition well_formed_node :: "json \<Rightarrow> bool" where
  "well_formed_node n =
     (n \<noteq> JUndef \<and> n \<noteq> JNull \<and>
      (isTextLeaf n \<longrightarrow> string_or_falsy (js_opt n ''text'')) \<and>
      (isInlineCard n \<longrightarrow> string_or_falsy (js_opt (js_opt n ''attrs'') ''url'')) \<and>
      array_or_falsy (js_opt n ''content''))"

lemma js_get_defined:
  "n \<noteq> JUndef \<Longrightarrow> n \<noteq> JNull \<Longrightarrow> js_get n k = Inr (js_opt n k)"
  by (cases n) simp_all

lemma js_join_empty: "js_join [] ss = concat ss"
  by (induction "[] :: string" ss rule: js_join.induct) simp_all

lemma js_elements_to_strings_strings: "js_elements_to_strings (map JStr ss) = Inr ss"
  by (induction ss) simp_all

lemma extractTextContent_parts:
  "extractTextParts ns = Inr (map JStr parts) \<Longrightarrow>
   extractTextContent (JArr ns) = Inr (concat parts)"
  by (simp add: js_elements_to_strings_strings js_join_empty)

lemma text_part:
  "string_or_falsy t \<Longrightarrow> (if truthy t then t else JStr []) = JStr (case t of JStr s \<Rightarrow> s | _ \<Rightarrow> [])"
  by (cases t) (auto simp: string_or_falsy_def)

lemma container_part:
  assumes "extractTextParts (case c of JArr ns \<Rightarrow> ns | _ \<Rightarrow> []) = Inr (map JStr below)"
  shows "(if truthy c then andThen (extractTextContent c) (\<lambda>s. Inr (JStr s)) else Inr (JStr [])) =
           Inr (JStr (concat below))"
proof (cases c)
  case (JArr ns)
  with assms have "extractTextContent (JArr ns) = Inr (concat below)"
    by (intro extractTextContent_parts) simp
  with JArr show ?thesis
    by (simp del: extractTextContent.simps)
qed (use assms in simp_all)

lemma extractTextParts_Cons:
  assumes "readable_node n"
    and "\<not> isTextLeaf n \<Longrightarrow> extractTextParts (childNodes n) = Inr (map JStr below)"
  shows "extractTextParts (n # ns) =
     andThen (extractTextParts ns) (\<lambda>others.
       Inr (JStr (if isTextLeaf n then textPayload n else concat below) # others))"
proof -
  from assms(1) have d: "n \<noteq> JUndef" "n \<noteq> JNull" by (simp_all add: readable_node_def)
  show ?thesis
  proof (cases "isTextLeaf n")
    case True
    with assms(1) have "string_or_falsy (js_opt n ''text'')" by (simp add: readable_node_def)
    from text_part [OF this] True show ?thesis
      by (simp add: js_get_defined [OF d] isTextLeaf_def textPayload_def)
  next
    case False
    with assms(2) have "extractTextParts (case js_opt n ''content'' of JArr ns \<Rightarrow> ns | _ \<Rightarrow> []) =
        Inr (map JStr below)"
      by (simp add: childNodes_def)
    from container_part [OF this] False show ?thesis
      by (simp add: js_get_defined [OF d] isTextLeaf_def del: extractTextContent.simps)
  qed
qed

lemma extractTextParts_document_order:
  "list_all readable_node (document_order ns) \<Longrightarrow>
   \<exists>parts. extractTextParts ns = Inr (map JStr parts) \<and>
           concat parts = concat (map textPayload (text_leaves ns))"
proof (induction ns rule: document_order.induct)
  case 1
  then show ?case by (simp add: text_leaves_def)
next
  case (2 n ns)
  from "2.prems" have r: "readable_node n" by simp
  from "2.prems" have "\<exists>parts. extractTextParts ns = Inr (map JStr parts) \<and>
           concat parts = concat (map textPayload (text_leaves ns))"
    by (intro "2.IH") simp
  then obtain others where others: "extractTextParts ns = Inr (map JStr others)"
    and o: "concat others = concat (map textPayload (text_leaves ns))"
    by blast
  show ?case
  proof (cases "isTextLeaf n")
    case True
    from extractTextParts_Cons [OF r, of "[]" ns] True others
    have "extractTextParts (n # ns) = Inr (map JStr (textPayload n # others))"
      by (simp del: extractTextParts.simps)
    moreover from True o have "concat (textPayload n # others) =
        concat (map textPayload (text_leaves (n # ns)))"
      by (simp add: text_leaves_def)
    ultimately show ?thesis by blast
  next
    case False
    with "2.prems" have "\<exists>parts. extractTextParts (childNodes n) = Inr (map JStr parts) \<and>
           concat parts = concat (map textPayload (text_leaves (childNodes n)))"
      by (intro "2.IH") simp_all
    then obtain below where below: "extractTextParts (childNodes n) = Inr (map JStr below)"
      and b: "concat below = concat (map textPayload (text_leaves (childNodes n)))"
      by blast
    from extractTextParts_Cons [OF r, of below ns] False others below
    have "extractTextParts (n # ns) = Inr (map JStr (concat below # others))"
      by (simp del: extractTextParts.simps)
    moreover from False o b have "concat (concat below # others) =
        concat (map textPayload (text_leaves (n # ns)))"
      by (simp add: text_leaves_def)
    ultimately show ?thesis by blast
  qed
qed

lemma extractTextContent_document_order:
  assumes "list_all readable_node (document_order ns)"
  shows "extractTextContent (JArr ns) = Inr (concat (map textPayload (text_leaves ns)))"
proof -
  from extractTextParts_document_order [OF assms] obtain parts
    where "extractTextParts ns = Inr (map JStr parts)"
      and "concat parts = concat (map textPayload (text_leaves ns))"
    by blast
  with extractTextContent_parts [of ns parts] show ?thesis
    by (simp del: extractTextContent.simps)
qed

definition well_formed_document :: "json list \<Rightarrow> bool" where
  "well_formed_document ns = list_all well_formed_node (all_nodes ns)"

lemma document_order_subset: "set (document_order ns) \<subseteq> set (all_nodes ns)"
  by (induction ns rule: all_nodes.induct) auto

lemma well_formed_readable:
  "well_formed_document ns \<Longrightarrow> list_all readable_node (document_order ns)"
  using document_order_subset [of ns]
  by (auto simp: well_formed_document_def list_all_iff well_formed_node_def readable_node_def)

lemma cardMentions_well_formed:
  "well_formed_node n \<Longrightarrow> \<exists>ms. cardMentions source commentId n = Inr ms"
  by (cases "js_opt (js_opt n ''attrs'') ''url''")
    (auto simp: well_formed_node_def cardMentions_def js_get_defined isInlineCard_def
      string_or_falsy_def Let_def)

lemma textMentions_well_formed:
  "well_formed_node n \<Longrightarrow> \<exists>ms. textMentions source commentId n = Inr ms"
  by (cases "js_opt n ''text''")
    (auto simp: well_formed_node_def textMentions_def js_get_defined isTextLeaf_def
      string_or_falsy_def)

lemma processNode_well_formed:
  assumes "well_formed_node n"
  shows "\<exists>a b. processNode source commentId n =
     andThen (processNodes source commentId (childNodes n)) (\<lambda>below. Inr (a @ b @ below))"
proof -
  from assms have d: "n \<noteq> JUndef" "n \<noteq> JNull" and c: "array_or_falsy (js_opt n ''content'')"
    by (simp_all add: well_formed_node_def)
  from cardMentions_well_formed [OF assms] obtain a
    where a: "cardMentions source commentId n = Inr a" by blast
  from textMentions_well_formed [OF assms] obtain b
    where b: "textMentions source commentId n = Inr b" by blast
  from c have "(if truthy (js_opt n ''content'') then
                  (case js_opt n ''content'' of
                     JArr ns \<Rightarrow> processNodes source commentId ns
                   | _ \<Rightarrow> Inl not_a_function)
                else Inr []) = processNodes source commentId (childNodes n)"
    by (cases "js_opt n ''content''") (auto simp: array_or_falsy_def childNodes_def)
  then have "processNode source commentId n =
     andThen (processNodes source commentId (childNodes n)) (\<lambda>below. Inr (a @ b @ below))"
    by (simp add: a b js_get_defined [OF d])
  then show ?thesis by blast
qed

lemma processNodes_well_formed:
  "well_formed_document ns \<Longrightarrow> \<exists>ms. processNodes source commentId ns = Inr ms"
  unfolding well_formed_document_def
proof (induction ns rule: all_nodes.induct)
  case 1
  then show ?case by simp
next
  case (2 n ns)
  from "2.prems" have wf: "well_formed_node n" by simp
  from "2.prems" "2.IH" obtain below others
    where below: "processNodes source commentId (childNodes n) = Inr below"
      and others: "processNodes source commentId ns = Inr others"
    by auto
  from processNode_well_formed [OF wf] obtain a b
    where "processNode source commentId n =
     andThen (processNodes source commentId (childNodes n)) (\<lambda>below. Inr (a @ b @ below))"
    by blast
  with below others show ?case
    by (simp del: processNode.simps)
qed

lemma extractTextContent_not_array:
  "(\<forall>ns. content \<noteq> JArr ns) \<Longrightarrow> extractTextContent content = Inr []"
  by (cases content) simp_all

text \<open>
  Claim C4. On a node list whose nodes, as far as the depth-first descent reaches, are
  readable, \<^verbatim>\<open>extractTextContent\<close> returns the payloads of the text leaves in document
  order, concatenated with nothing in between. A node that is neither a text leaf nor a
  container contributes the empty string, and an argument that is not an array yields the
  empty string.
\<close>

theorem extractTextContent_concat:
  "(list_all readable_node (document_order ns) \<longrightarrow>
      extractTextContent (JArr ns) = Inr (concat (map textPayload (text_leaves ns)))) \<and>
   (readable_node n \<and> \<not> isTextLeaf n \<and> childNodes n = [] \<longrightarrow>
      extractTextContent (JArr [n]) = Inr []) \<and>
   ((\<forall>ns. content \<noteq> JArr ns) \<longrightarrow> extractTextContent content = Inr [])"
proof (intro conjI impI)
  assume "list_all readable_node (document_order ns)"
  then show "extractTextContent (JArr ns) = Inr (concat (map textPayload (text_leaves ns)))"
    by (rule extractTextContent_document_order)
next
  assume "readable_node n \<and> \<not> isTextLeaf n \<and> childNodes n = []"
  then have "list_all readable_node (document_order [n])" and "text_leaves [n] = []"
    by (simp_all add: text_leaves_def)
  with extractTextContent_document_order [of "[n]"] show "extractTextContent (JArr [n]) = Inr []"
    by (simp del: extractTextContent.simps)
next
  assume "\<forall>ns. content \<noteq> JArr ns"
  then show "extractTextContent content = Inr []"
    by (rule extractTextContent_not_array)
qed

text \<open>
  A paragraph of two text leaves around a hard break, followed by a text leaf.
\<close>

theorem extractTextContent_concat_witness:
  "list_all readable_node
     (document_order
        [JObj [(''type'', JStr ''paragraph''),
               (''content'', JArr [JObj [(''type'', JStr ''text''), (''text'', JStr ''ab'')],
                                   JObj [(''type'', JStr ''hardBreak'')],
                                   JObj [(''type'', JStr ''text''), (''text'', JStr ''cd'')]])],
         JObj [(''type'', JStr ''text''), (''text'', JStr ''e'')]]) \<and>
   extractTextContent
     (JArr
        [JObj [(''type'', JStr ''paragraph''),
               (''content'', JArr [JObj [(''type'', JStr ''text''), (''text'', JStr ''ab'')],
                                   JObj [(''type'', JStr ''hardBreak'')],
                                   JObj [(''type'', JStr ''text''), (''text'', JStr ''cd'')]])],
         JObj [(''type'', JStr ''text''), (''text'', JStr ''e'')]]) = Inr ''abcde'' \<and>
   extractTextContent (JArr [JObj [(''type'', JStr ''hardBreak'')]]) = Inr [] \<and>
   extractTextContent (JStr ''ab'') = Inr []"
proof -
  let ?doc = "[JObj [(''type'', JStr ''paragraph''),
               (''content'', JArr [JObj [(''type'', JStr ''text''), (''text'', JStr ''ab'')],
                                   JObj [(''type'', JStr ''hardBreak'')],
                                   JObj [(''type'', JStr ''text''), (''text'', JStr ''cd'')]])],
         JObj [(''type'', JStr ''text''), (''text'', JStr ''e'')]]"
  let ?break = "JObj [(''type'', JStr ''hardBreak'')]"
  have order: "document_order ?doc =
      [JObj [(''type'', JStr ''paragraph''),
               (''content'', JArr [JObj [(''type'', JStr ''text''), (''text'', JStr ''ab'')],
                                   JObj [(''type'', JStr ''hardBreak'')],
                                   JObj [(''type'', JStr ''text''), (''text'', JStr ''cd'')]])],
       JObj [(''type'', JStr ''text''), (''text'', JStr ''ab'')],
       JObj [(''type'', JStr ''hardBreak'')],
       JObj [(''type'', JStr ''text''), (''text'', JStr ''cd'')],
       JObj [(''type'', JStr ''text''), (''text'', JStr ''e'')]]"
    by (simp add: isTextLeaf_def childNodes_def)
  have h1: "list_all readable_node (document_order ?doc)"
    unfolding order by (simp add: readable_node_def isTextLeaf_def string_or_falsy_def)
  have leaves: "concat (map textPayload (text_leaves ?doc)) = ''abcde''"
    unfolding text_leaves_def order by (simp add: isTextLeaf_def textPayload_def)
  have h2: "readable_node ?break \<and> \<not> isTextLeaf ?break \<and> childNodes ?break = []"
    by (simp add: readable_node_def isTextLeaf_def childNodes_def)
  have h3: "\<forall>ns. JStr ''ab'' \<noteq> JArr ns"
    by simp
  from extractTextContent_concat [of ?doc ?break "JStr ''ab''"] h1 h2 h3 leaves
  have "extractTextContent (JArr ?doc) = Inr ''abcde''"
    and "extractTextContent (JArr [?break]) = Inr []"
    and "extractTextContent (JStr ''ab'') = Inr []"
    by (simp_all only: simp_thms)
  with h1 show ?thesis
    by (simp only: simp_thms)
qed

text \<open>
  Claim C5, amended. An argument that is not an array makes \<^verbatim>\<open>extractTextContent\<close>
  return the empty string, and on a node list whose nodes, as far as child lists lead,
  are all well formed neither extractor throws.
\<close>

theorem extractors_total_on_well_formed:
  "((\<forall>ns. content \<noteq> JArr ns) \<longrightarrow> extractTextContent content = Inr []) \<and>
   (well_formed_document ns \<longrightarrow>
      (\<exists>text. extractTextContent (JArr ns) = Inr text) \<and>
      (\<exists>ms. extractIssueMentions (JArr ns) source commentId = Inr ms))"
proof (intro conjI impI)
  assume "\<forall>ns. content \<noteq> JArr ns"
  then show "extractTextContent content = Inr []"
    by (rule extractTextContent_not_array)
next
  assume "well_formed_document ns"
  then have "list_all readable_node (document_order ns)"
    by (rule well_formed_readable)
  then show "\<exists>text. extractTextContent (JArr ns) = Inr text"
    by (simp add: extractTextContent_document_order del: extractTextContent.simps)
next
  assume "well_formed_document ns"
  from processNodes_well_formed [OF this] obtain ms
    where "processNodes source commentId ns = Inr ms" by blast
  then show "\<exists>ms. extractIssueMentions (JArr ns) source commentId = Inr ms"
    by (simp add: extractIssueMentions_def)
qed

text \<open>
  Claim C5 as stated fails: on the node list \<^verbatim>\<open>[null]\<close> both extractors throw the
  \<^verbatim>\<open>TypeError\<close> of the read \<^verbatim>\<open>node.type\<close>.
\<close>

theorem extractors_raise_counterexample:
  "extractTextContent (JArr [JNull]) = Inl not_an_object \<and>
   extractIssueMentions (JArr [JNull]) Description JUndef = Inl not_an_object"
  by (simp add: extractIssueMentions_def cardMentions_def)

text \<open>
  None of the conditions on a node can be dropped. A text that is a number, a url that is
  a number and a child list that is a string each make the mention extractor throw, and
  so does an argument that is not an array; the text extractor renders the number and
  passes over the string. Below a text leaf the mention extractor descends and the text
  extractor does not: a null node there stops the one and not the other.
\<close>

lemma malformed_nodes:
  "extractIssueMentions
     (JArr [JObj [(''type'', JStr ''text''), (''text'', JNum ''5'')]]) Description JUndef =
     Inl not_a_function"
  "extractIssueMentions
     (JArr [JObj [(''type'', JStr ''inlineCard''), (''attrs'', JObj [(''url'', JNum ''5'')])]])
     Description JUndef = Inl not_a_function"
  "extractIssueMentions (JArr [JObj [(''content'', JStr ''x'')]]) Description JUndef =
     Inl not_a_function"
  "extractIssueMentions (JStr ''x'') Description JUndef = Inl not_a_function"
  "extractTextContent
     (JArr [JObj [(''type'', JStr ''text''), (''text'', JNum ''5'')]]) = Inr ''5''"
  "extractTextContent (JArr [JObj [(''content'', JStr ''x'')]]) = Inr []"
  "extractIssueMentions
     (JArr [JObj [(''type'', JStr ''text''), (''text'', JStr ''a''), (''content'', JArr [JNull])]])
     Description JUndef = Inl not_an_object"
  "extractTextContent
     (JArr [JObj [(''type'', JStr ''text''), (''text'', JStr ''a''), (''content'', JArr [JNull])]]) =
     Inr ''a''"
  by (simp_all add: extractIssueMentions_def cardMentions_def textMentions_def
      match_key_at_def isUpper_def Let_def)

text \<open>A paragraph with a text leaf and an inline card.\<close>

theorem extractors_total_on_well_formed_witness:
  "well_formed_document
     [JObj [(''type'', JStr ''paragraph''),
            (''content'', JArr [JObj [(''type'', JStr ''text''), (''text'', JStr ''see AB-1'')],
                                JObj [(''type'', JStr ''inlineCard''),
                                      (''attrs'', JObj [(''url'', JStr ''/browse/CD-2'')])]])]] \<and>
   (\<exists>text. extractTextContent
     (JArr [JObj [(''type'', JStr ''paragraph''),
            (''content'', JArr [JObj [(''type'', JStr ''text''), (''text'', JStr ''see AB-1'')],
                                JObj [(''type'', JStr ''inlineCard''),
                                      (''attrs'', JObj [(''url'', JStr ''/browse/CD-2'')])]])]])
      = Inr text) \<and>
   (\<exists>ms. extractIssueMentions
     (JArr [JObj [(''type'', JStr ''paragraph''),
            (''content'', JArr [JObj [(''type'', JStr ''text''), (''text'', JStr ''see AB-1'')],
                                JObj [(''type'', JStr ''inlineCard''),
                                      (''attrs'', JObj [(''url'', JStr ''/browse/CD-2'')])]])]])
      Description JUndef = Inr ms) \<and>
   extractTextContent (JNum ''7'') = Inr []"
proof -
  let ?doc = "[JObj [(''type'', JStr ''paragraph''),
            (''content'', JArr [JObj [(''type'', JStr ''text''), (''text'', JStr ''see AB-1'')],
                                JObj [(''type'', JStr ''inlineCard''),
                                      (''attrs'', JObj [(''url'', JStr ''/browse/CD-2'')])]])]]"
  have nodes: "all_nodes ?doc =
      [JObj [(''type'', JStr ''paragraph''),
            (''content'', JArr [JObj [(''type'', JStr ''text''), (''text'', JStr ''see AB-1'')],
                                JObj [(''type'', JStr ''inlineCard''),
                                      (''attrs'', JObj [(''url'', JStr ''/browse/CD-2'')])]])],
       JObj [(''type'', JStr ''text''), (''text'', JStr ''see AB-1'')],
       JObj [(''type'', JStr ''inlineCard''), (''attrs'', JObj [(''url'', JStr ''/browse/CD-2'')])]]"
    by (simp add: childNodes_def)
  have h1: "well_formed_document ?doc"
    unfolding well_formed_document_def nodes
    by (simp add: well_formed_node_def isTextLeaf_def isInlineCard_def string_or_falsy_def
        array_or_falsy_def)
  have h2: "\<forall>ns. JNum ''7'' \<noteq> JArr ns"
    by simp
  from extractors_total_on_well_formed [of "JNum ''7''" ?doc Description JUndef] h1 h2
  show ?thesis
    by (simp only: simp_thms)
qed

section \<open>The relationship list of a normalized record\<close>

text \<open>
  The vocabulary of the claim: the narrative content of a payload, the mentions the mention
  extractor finds in it (none when the content is absent), the structured links of the
  payload, and the key of the issue a link leads to.
\<close>

definition narrativeContent :: "json \<Rightarrow> json" where
  "narrativeContent issue = js_opt (js_opt (js_opt issue ''fields'') ''description'') ''content''"

definition narrativeMentions :: "json \<Rightarrow> error + relatedIssue list" where
  "narrativeMentions issue =
     (if truthy (narrativeContent issue)
      then extractIssueMentions (narrativeContent issue) Description JUndef
      else Inr [])"

definition structuredLinks :: "json \<Rightarrow> json list" where
  "structuredLinks issue =
     (case js_opt (js_opt issue ''fields'') ''issuelinks'' of JArr links \<Rightarrow> links | _ \<Rightarrow> [])"

definition linkedIssueKey :: "json \<Rightarrow> json" where
  "linkedIssueKey link =
     js_opt (if truthy (js_opt link ''inwardIssue'') then js_opt link ''inwardIssue''
             else js_opt link ''outwardIssue'') ''key''"

lemma js_get_Inr: "js_get v k = Inr x \<Longrightarrow> x = js_opt v k"
  by (cases v) auto

lemma issueLink_Inr:
  "issueLink link = Inr l \<Longrightarrow>
     rel_key l = linkedIssueKey link \<and> rel_type l = Link \<and> rel_source l = Description"
  by (auto simp: issueLink_def andThen_eq_Inr Let_def linkedIssueKey_def dest!: js_get_Inr)

lemma mapM_issueLink_Inr:
  "mapM issueLink links = Inr ls \<Longrightarrow>
     map rel_key ls = map linkedIssueKey links \<and>
     list_all (\<lambda>l. rel_type l = Link \<and> rel_source l = Description) ls"
proof (induction links arbitrary: ls)
  case Nil
  then show ?case by simp
next
  case (Cons link links)
  from Cons.prems obtain l ls' where l: "issueLink link = Inr l"
    and ls': "mapM issueLink links = Inr ls'" and ls: "ls = l # ls'"
    by (auto simp: andThen_eq_Inr)
  from issueLink_Inr [OF l] Cons.IH [OF ls'] ls show ?case by simp
qed

lemma withLinks_Inr:
  assumes "withLinks pf fs cleaned = Inr cleaned'"
  shows "\<exists>ls. mapM issueLink (case js_opt fs ''issuelinks'' of JArr links \<Rightarrow> links | _ \<Rightarrow> []) = Inr ls \<and>
           cleaned' = cleaned\<lparr>relatedIssues := relatedIssues cleaned @ ls\<rparr>"
proof (cases "js_opt fs ''issuelinks''")
  case (JArr links)
  with assms show ?thesis
    by (cases links) (auto simp: withLinks_def andThen_eq_Inr js_map_def split: if_splits)
qed (use assms in \<open>auto simp: withLinks_def andThen_eq_Inr js_map_def split: if_splits\<close>)

lemma withMentions_Inr:
  assumes "withMentions fs cleaned = Inr cleaned'" and "relatedIssues cleaned = []"
  shows "\<exists>found. (if truthy (js_opt (js_opt fs ''description'') ''content'')
                   then extractIssueMentions (js_opt (js_opt fs ''description'') ''content'') Description JUndef
                   else Inr []) = Inr found \<and>
           cleaned' = cleaned\<lparr>relatedIssues := found\<rparr>"
  using assms by (auto simp: withMentions_def Let_def andThen_eq_Inr split: if_splits)

lemma withParent_Inr:
  "withParent fs cleaned = Inr cleaned' \<Longrightarrow> \<exists>p. cleaned' = cleaned\<lparr>parent := p\<rparr>"
  by (auto simp: withParent_def andThen_eq_Inr split: if_splits intro: exI [of _ "parent cleaned"])

lemma withChildren_Inr:
  "withChildren pf fs cleaned = Inr cleaned' \<Longrightarrow> \<exists>c. cleaned' = cleaned\<lparr>children := c\<rparr>"
  by (auto simp: withChildren_def andThen_eq_Inr split: if_splits intro: exI [of _ "children cleaned"])

lemma cleanIssue_Inr:
  assumes "cleanIssue pf issue = Inr cleaned"
  shows "\<exists>found ls. narrativeMentions issue = Inr found \<and>
           mapM issueLink (structuredLinks issue) = Inr ls \<and>
           relatedIssues cleaned = found @ ls \<and>
           epicLink cleaned =
             (if truthy (js_opt (js_opt issue ''fields'') ''customfield_10014'')
              then Some \<lparr>ref_id = js_opt (js_opt issue ''fields'') ''customfield_10014'',
                         ref_key = js_opt (js_opt issue ''fields'') ''customfield_10014'',
                         ref_summary = JUndef\<rparr>
              else None)"
proof -
  from assms obtain fs narrative c1 c2 c3 where fs: "js_get issue ''fields'' = Inr fs"
    and c1: "withMentions fs (withStoryPoints fs
                   \<lparr>issue_id = js_opt issue ''id'',
                    issue_key = js_opt issue ''key'',
                    summary = js_opt fs ''summary'',
                    status = js_opt (js_opt fs ''status'') ''name'',
                    created = js_opt fs ''created'',
                    updated = js_opt fs ''updated'',
                    description = narrative,
                    relatedIssues = [],
                    storyPoints = None,
                    parent = None,
                    epicLink = None,
                    children = None,
                    comments = None\<rparr>) = Inr c1"
    and c2: "withLinks pf fs c1 = Inr c2"
    and c3: "withParent fs c2 = Inr c3"
    and c4: "withChildren pf fs (withEpicLink fs c3) = Inr cleaned"
    by (auto simp: cleanIssue_def andThen_eq_Inr Let_def)
  have fs': "js_opt issue ''fields'' = fs"
    using js_get_Inr [OF fs] by simp
  let ?c0 = "withStoryPoints fs
                   \<lparr>issue_id = js_opt issue ''id'',
                    issue_key = js_opt issue ''key'',
                    summary = js_opt fs ''summary'',
                    status = js_opt (js_opt fs ''status'') ''name'',
                    created = js_opt fs ''created'',
                    updated = js_opt fs ''updated'',
                    description = narrative,
                    relatedIssues = [],
                    storyPoints = None,
                    parent = None,
                    epicLink = None,
                    children = None,
                    comments = None\<rparr>"
  have r0: "relatedIssues ?c0 = []" and e0: "epicLink ?c0 = None"
    by (simp_all add: withStoryPoints_def)
  from withMentions_Inr [OF c1 r0] obtain found
    where f: "(if truthy (js_opt (js_opt fs ''description'') ''content'')
                   then extractIssueMentions (js_opt (js_opt fs ''description'') ''content'') Description JUndef
                   else Inr []) = Inr found"
      and c1': "c1 = ?c0\<lparr>relatedIssues := found\<rparr>"
    by blast
  from f have found: "narrativeMentions issue = Inr found"
    by (simp only: narrativeMentions_def narrativeContent_def fs')
  from c1' have r1: "relatedIssues c1 = found"
    by simp
  from c1' e0 have e1: "epicLink c1 = None"
    by simp
  from withLinks_Inr [OF c2] obtain ls
    where ls: "mapM issueLink (structuredLinks issue) = Inr ls"
      and r2: "relatedIssues c2 = relatedIssues c1 @ ls" and e2: "epicLink c2 = epicLink c1"
    by (auto simp: structuredLinks_def fs')
  from withParent_Inr [OF c3] have r3: "relatedIssues c3 = relatedIssues c2"
    and e3: "epicLink c3 = epicLink c2"
    by auto
  from withChildren_Inr [OF c4] have r4: "relatedIssues cleaned = relatedIssues (withEpicLink fs c3)"
    and e4: "epicLink cleaned = epicLink (withEpicLink fs c3)"
    by auto
  have "relatedIssues cleaned = found @ ls"
    using r1 r2 r3 r4 by (simp add: withEpicLink_def)
  moreover have "epicLink cleaned =
             (if truthy (js_opt fs ''customfield_10014'')
              then Some \<lparr>ref_id = js_opt fs ''customfield_10014'',
                         ref_key = js_opt fs ''customfield_10014'',
                         ref_summary = JUndef\<rparr>
              else None)"
    using e1 e2 e3 e4 by (simp add: withEpicLink_def)
  ultimately show ?thesis
    using found ls fs' by blast
qed

text \<open>
  Claim C3. Whenever \<^verbatim>\<open>cleanIssue\<close> returns, \<^verbatim>\<open>relatedIssues\<close> is the list of
  narrative mentions followed by one entry for each structured link, in payload order; each
  of these entries has the key of the linked issue, type \<^verbatim>\<open>"link"\<close> and source
  \<^verbatim>\<open>"description"\<close>. The links are appended whether or not there are mentions.
\<close>

theorem cleanIssue_relatedIssues:
  assumes "cleanIssue pf issue = Inr cleaned"
  shows "\<exists>found ls. narrativeMentions issue = Inr found \<and>
           mapM issueLink (structuredLinks issue) = Inr ls \<and>
           relatedIssues cleaned = found @ ls \<and>
           map rel_key ls = map linkedIssueKey (structuredLinks issue) \<and>
           list_all (\<lambda>l. rel_type l = Link \<and> rel_source l = Description) ls"
proof -
  from cleanIssue_Inr [OF assms] obtain found ls
    where "narrativeMentions issue = Inr found"
      and ls: "mapM issueLink (structuredLinks issue) = Inr ls"
      and "relatedIssues cleaned = found @ ls"
    by blast
  with mapM_issueLink_Inr [OF ls] show ?thesis by blast
qed

section \<open>Sample payloads\<close>

definition text_node :: "string \<Rightarrow> json" where
  "text_node s = JObj [(''type'', JStr ''text''), (''text'', JStr s)]"

definition sample_issue :: json where
  "sample_issue =
     JObj [(''id'', JStr ''10001''), (''key'', JStr ''AB-1''),
           (''fields'',
            JObj [(''description'', JObj [(''content'', JArr [text_node ''A-1 B-2''])]),
                  (''customfield_10014'', JStr ''EP-1''),
                  (''issuelinks'',
                   JArr [JObj [(''type'', JObj [(''inward'', JStr ''is blocked by'')]),
                               (''inwardIssue'', JObj [(''key'', JStr ''C-3'')])]])])]"

definition sample_comments :: json where
  "sample_comments =
     JObj [(''comments'',
            JArr [JObj [(''id'', JStr ''1''), (''body'', JObj [(''content'', JArr [text_node ''X-1''])])],
                  JObj [(''id'', JStr ''2''), (''body'', JObj [(''content'', JArr [text_node ''Y-2 X-1''])])]])]"

lemma textMentions_text_node:
  "textMentions source commentId (text_node s) =
     Inr (map (mention source commentId) (match_all_keys s))"
  by (cases s) (simp_all add: textMentions_def text_node_def)

lemma processNode_text_node:
  "processNode source commentId (text_node s) =
     Inr (map (mention source commentId) (match_all_keys s))"
  using textMentions_text_node [of source commentId s]
  by (simp add: cardMentions_def) (simp add: text_node_def)

lemma match_sample_keys:
  "match_all_keys ''A-1 B-2'' = [''A-1'', ''B-2'']"
  "match_all_keys ''X-1'' = [''X-1'']"
  "match_all_keys ''Y-2 X-1'' = [''Y-2'', ''X-1'']"
  by (simp_all add: match_key_at_def isUpper_def isDigit_def Let_def)

lemma extractIssueMentions_text_node:
  "extractIssueMentions (JArr [text_node s]) source commentId =
     Inr (dedupe (map (mention source commentId) (match_all_keys s)))"
  by (simp add: extractIssueMentions_def processNode_text_node del: processNode.simps)

lemma extractTextContent_text_node:
  "s \<noteq> [] \<Longrightarrow> extractTextContent (JArr [text_node s]) = Inr s"
  by (simp add: text_node_def)

lemma dedupe_samples:
  "dedupe [mention s c ''A-1'', mention s c ''B-2''] = [mention s c ''A-1'', mention s c ''B-2'']"
  "dedupe [mention s c ''X-1''] = [mention s c ''X-1'']"
  "dedupe [mention s c ''Y-2'', mention s c ''X-1''] = [mention s c ''Y-2'', mention s c ''X-1'']"
  by (simp_all add: dedupe_def new_Map_def map_values_def mention_def)

definition sample_cleaned :: cleanJiraIssue where
  "sample_cleaned =
     \<lparr>issue_id = JStr ''10001'', issue_key = JStr ''AB-1'', summary = JUndef, status = JUndef,
      created = JUndef, updated = JUndef, description = ''A-1 B-2'',
      relatedIssues =
        [mention Description JUndef ''A-1'', mention Description JUndef ''B-2'',
         \<lparr>rel_key = JStr ''C-3'', rel_summary = JUndef, rel_type = Link,
          rel_relationship = JStr ''is blocked by'', rel_source = Description,
          rel_commentId = JUndef\<rparr>],
      storyPoints = None, parent = None,
      epicLink = Some \<lparr>ref_id = JStr ''EP-1'', ref_key = JStr ''EP-1'', ref_summary = JUndef\<rparr>,
      children = None, comments = None\<rparr>"

lemma cleanIssue_sample: "cleanIssue pf sample_issue = Inr sample_cleaned"
  by (simp add: cleanIssue_def sample_issue_def extractTextContent_text_node
      extractIssueMentions_text_node match_sample_keys dedupe_samples withStoryPoints_def
      withMentions_def withLinks_def withParent_def withEpicLink_def withChildren_def
      js_map_def issueLink_def sample_cleaned_def Let_def
      del: extractTextContent.simps match_all_keys.simps)

text \<open>
  The narrative mentions \<^verbatim>\<open>A-1\<close> and \<^verbatim>\<open>B-2\<close>, and one link to \<^verbatim>\<open>C-3\<close>.
\<close>

theorem cleanIssue_relatedIssues_witness:
  "cleanIssue (serving []) sample_issue = Inr sample_cleaned \<and>
   narrativeMentions sample_issue =
     Inr [mention Description JUndef ''A-1'', mention Description JUndef ''B-2''] \<and>
   map linkedIssueKey (structuredLinks sample_issue) = [JStr ''C-3''] \<and>
   map rel_key (relatedIssues sample_cleaned) = [JStr ''A-1'', JStr ''B-2'', JStr ''C-3''] \<and>
   map rel_type (relatedIssues sample_cleaned) = [Mention, Mention, Link]"
proof -
  have e: "cleanIssue (serving []) sample_issue = Inr sample_cleaned"
    by (rule cleanIssue_sample)
  from cleanIssue_relatedIssues [OF e] obtain found ls
    where "narrativeMentions sample_issue = Inr found"
      and "relatedIssues sample_cleaned = found @ ls"
      and "map rel_key ls = map linkedIssueKey (structuredLinks sample_issue)"
    by blast
  moreover have "narrativeMentions sample_issue =
     Inr [mention Description JUndef ''A-1'', mention Description JUndef ''B-2'']"
    by (simp add: narrativeMentions_def narrativeContent_def sample_issue_def
        extractIssueMentions_text_node match_sample_keys dedupe_samples
        del: match_all_keys.simps)
  moreover have "map rel_key (relatedIssues sample_cleaned) = [JStr ''A-1'', JStr ''B-2'', JStr ''C-3'']"
    and "map rel_type (relatedIssues sample_cleaned) = [Mention, Mention, Link]"
    by (simp_all add: sample_cleaned_def mention_def)
  ultimately show ?thesis
    using e by (auto simp: sample_cleaned_def mention_def)
qed

section \<open>The merge of comment mentions\<close>

text \<open>
  The vocabulary of the claims about the aggregates: the requests they send, written out.
  \<open>issueRequest\<close> asks for a record with the fields the service reads,
  \<open>commentsRequest\<close> for the comments of a record, and \<open>epicChildrenRequest\<close> for the
  records whose epic link is the given key.
\<close>

definition issueRequest :: "platform \<Rightarrow> string \<Rightarrow> string" where
  "issueRequest pf issueId =
     ''/rest/api/3/issue/'' @ issueId @ ''?'' @
     URLSearchParams pf
       [(''fields'',
         ''id,key,summary,description,status,created,updated,parent,subtasks,customfield_10014,customfield_10016,issuelinks''),
        (''expand'', ''names,renderedFields'')]"

definition commentsRequest :: "string \<Rightarrow> string" where
  "commentsRequest issueId = ''/rest/api/3/issue/'' @ issueId @ ''/comment''"

definition epicChildrenRequest :: "platform \<Rightarrow> string \<Rightarrow> string" where
  "epicChildrenRequest pf epicKey =
     ''/rest/api/3/search?'' @
     URLSearchParams pf
       [(''jql'', [CHR 0x22] @ ''Epic Link'' @ [CHR 0x22] @ '' = '' @ epicKey),
        (''maxResults'', ''100''),
        (''fields'',
         ''id,key,summary,description,status,created,updated,parent,subtasks,customfield_10014,customfield_10016,issuelinks''),
        (''expand'', ''names,renderedFields'')]"

lemma fetchIssue_request:
  "fetchIssue pf baseUrl issueId = fetchJson pf baseUrl (issueRequest pf issueId) GET"
  by (simp add: fetchIssue_def issueRequest_def issueFields_def)

lemma fetchComments_request:
  "fetchComments pf baseUrl issueId = fetchJson pf baseUrl (commentsRequest issueId) GET"
  by (simp add: fetchComments_def commentsRequest_def)

lemma rejections_append: "rejections (ps @ qs) = rejections ps @ rejections qs"
  by (induction ps rule: rejections.induct) simp_all

lemma no_rejections: "rejections ps = [] \<Longrightarrow> ps = map Inr (fulfilments ps)"
  by (induction ps rule: rejections.induct) simp_all

lemma promise_all_Inr: "promise_all settled ps = Inr vs \<Longrightarrow> ps = map Inr vs"
  by (auto simp: promise_all_def rejections_append split: list.splits dest: no_rejections)

lemma promise_all_Inr_pair:
  assumes "promise_all settled [p, q] = Inr vs"
  shows "p = Inr (vs ! 0) \<and> q = Inr (vs ! 1)"
proof -
  from promise_all_Inr [OF assms] have "[p, q] = map Inr vs" .
  then show ?thesis by (cases vs) auto
qed

lemma fetchIssueAndComments_Inr:
  "fetchIssueAndComments pf baseUrl settled issueId = Inr (issueData, commentsData) \<Longrightarrow>
     fetchIssue pf baseUrl issueId = Inr issueData \<and>
     fetchComments pf baseUrl issueId = Inr commentsData"
  by (auto simp: fetchIssueAndComments_def split: sum.splits if_splits dest: promise_all_Inr_pair)

lemma assembleIssue_Inr:
  "assembleIssue pf issueData commentsData = Inr r \<Longrightarrow>
     \<exists>issue cs. cleanIssue pf issueData = Inr issue \<and> cleanComments commentsData = Inr cs \<and>
       r = withComments issue cs"
  by (auto simp: assembleIssue_def andThen_eq_Inr)

lemma getIssueWithComments_Inr:
  assumes "snd (getIssueWithComments pf baseUrl settled issueId) = Inr r"
  shows "\<exists>issueData commentsData assembled.
           fetchIssueAndComments pf baseUrl settled issueId = Inr (issueData, commentsData) \<and>
           assembleIssue pf issueData commentsData = Inr assembled \<and>
           (r = assembled \<or> (\<exists>e. r = assembled\<lparr>epicLink := e\<rparr>))"
  using assms
  by (auto simp: getIssueWithComments_def andThen_eq_Inr split: sum.splits option.splits)

lemma epicChild_Inr:
  assumes "epicChild pf baseUrl raw = Inr r"
  shows "\<exists>k commentsData issue cs.
       js_to_string (js_opt raw ''key'') = Inr k \<and>
       fetchJson pf baseUrl (commentsRequest k) GET = Inr commentsData \<and>
       cleanIssue pf raw = Inr issue \<and> cleanComments commentsData = Inr cs \<and>
       r = withComments issue cs"
proof -
  from assms obtain v k commentsData issue cs where v: "js_get raw ''key'' = Inr v"
    and "js_to_string v = Inr k"
    and "fetchComments pf baseUrl k = Inr commentsData"
    and "cleanIssue pf raw = Inr issue" and "cleanComments commentsData = Inr cs"
    and "r = withComments issue cs"
    by (auto simp: epicChild_def andThen_eq_Inr)
  with js_get_Inr [OF v] show ?thesis
    by (auto simp: fetchComments_request)
qed

lemma getEpicChildren_Inr:
  assumes "getEpicChildren pf baseUrl settled epicKey = Inr rs"
  shows "\<exists>data raws. fetchJson pf baseUrl (epicChildrenRequest pf epicKey) GET = Inr data \<and>
           js_opt data ''issues'' = JArr raws \<and>
           map (epicChild pf baseUrl) raws = map Inr rs"
proof -
  from assms obtain data found
    where d: "fetchJson pf baseUrl (epicChildrenRequest pf epicKey) GET = Inr data"
    and f: "js_get data ''issues'' = Inr found"
    and p: "(case found of
         JArr xs \<Rightarrow> promise_all settled (map (epicChild pf baseUrl) xs)
       | JUndef \<Rightarrow> Inl not_an_object
       | JNull \<Rightarrow> Inl not_an_object
       | _ \<Rightarrow> Inl not_a_function) = Inr rs"
    by (auto simp: getEpicChildren_def epicChildrenRequest_def issueFields_def andThen_eq_Inr)
  from p obtain raws where r: "found = JArr raws"
    and "promise_all settled (map (epicChild pf baseUrl) raws) = Inr rs"
    by (cases found) auto
  then have "map (epicChild pf baseUrl) raws = map Inr rs"
    by (auto dest: promise_all_Inr)
  with d js_get_Inr [OF f] r show ?thesis by blast
qed

lemma map_eq_map_Inr:
  "map f xs = map Inr ys \<Longrightarrow> list_all2 (\<lambda>x y. f x = Inr y) xs ys"
  by (induction xs arbitrary: ys) auto

text \<open>
  \<open>merged pf baseUrl raw r\<close>: the comments of \<open>r\<close> are those fetched for the key of
  the payload \<open>raw\<close> and normalized, and the relationship list of \<open>r\<close> is that of the
  normalized \<open>raw\<close> followed by the mentions of these comments.
\<close>

definition merged :: "platform \<Rightarrow> string \<Rightarrow> json \<Rightarrow> cleanJiraIssue \<Rightarrow> bool" where
  "merged pf baseUrl raw r =
     (\<exists>k commentsData issue cs.
        js_to_string (js_opt raw ''key'') = Inr k \<and>
        fetchJson pf baseUrl (commentsRequest k) GET = Inr commentsData \<and>
        cleanIssue pf raw = Inr issue \<and> cleanComments commentsData = Inr cs \<and>
        comments r = Some cs \<and>
        relatedIssues r = relatedIssues issue @ concat (map mentions cs))"

text \<open>
  Claim C2. Whenever \<^verbatim>\<open>getIssueWithComments\<close> returns a record, the record and the
  comments of the requested identifier have been fetched, the comments of the result are
  the normalized comments, and its relationship list is the list \<^verbatim>\<open>cleanIssue\<close> built
  for the fetched record followed by the mentions of the comments, concatenated in comment
  order. Whenever \<^verbatim>\<open>getEpicChildren\<close> returns, the search for the children of the epic
  has been answered with a list of payloads, and the results are, one for each payload and
  in the same order, the payload normalized and merged in this way with the comments
  fetched for its own key. Nothing is removed: the lists are appended.
\<close>

theorem aggregates_append_comment_mentions:
  "(snd (getIssueWithComments pf baseUrl settled issueId) = Inr r \<longrightarrow>
      (\<exists>issueData commentsData issue cs.
         fetchJson pf baseUrl (issueRequest pf issueId) GET = Inr issueData \<and>
         fetchJson pf baseUrl (commentsRequest issueId) GET = Inr commentsData \<and>
         cleanIssue pf issueData = Inr issue \<and> cleanComments commentsData = Inr cs \<and>
         comments r = Some cs \<and>
         relatedIssues r = relatedIssues issue @ concat (map mentions cs))) \<and>
   (getEpicChildren pf baseUrl settled epicKey = Inr rs \<longrightarrow>
      (\<exists>data raws. fetchJson pf baseUrl (epicChildrenRequest pf epicKey) GET = Inr data \<and>
         js_opt data ''issues'' = JArr raws \<and>
         list_all2 (merged pf baseUrl) raws rs))"
proof (intro conjI impI)
  assume "snd (getIssueWithComments pf baseUrl settled issueId) = Inr r"
  from getIssueWithComments_Inr [OF this] obtain issueData commentsData assembled
    where f: "fetchIssueAndComments pf baseUrl settled issueId = Inr (issueData, commentsData)"
      and a: "assembleIssue pf issueData commentsData = Inr assembled"
      and r: "relatedIssues r = relatedIssues assembled" "comments r = comments assembled"
    by auto
  from assembleIssue_Inr [OF a] obtain issue cs
    where "cleanIssue pf issueData = Inr issue" and "cleanComments commentsData = Inr cs"
      and "relatedIssues assembled = relatedIssues issue @ concat (map mentions cs)"
      and "comments assembled = Some cs"
    by (auto simp: withComments_def)
  with fetchIssueAndComments_Inr [OF f] r
  show "\<exists>issueData commentsData issue cs.
         fetchJson pf baseUrl (issueRequest pf issueId) GET = Inr issueData \<and>
         fetchJson pf baseUrl (commentsRequest issueId) GET = Inr commentsData \<and>
         cleanIssue pf issueData = Inr issue \<and> cleanComments commentsData = Inr cs \<and>
         comments r = Some cs \<and>
         relatedIssues r = relatedIssues issue @ concat (map mentions cs)"
    by (auto simp: fetchIssue_request fetchComments_request)
next
  assume "getEpicChildren pf baseUrl settled epicKey = Inr rs"
  from getEpicChildren_Inr [OF this] obtain data raws
    where d: "fetchJson pf baseUrl (epicChildrenRequest pf epicKey) GET = Inr data"
      and i: "js_opt data ''issues'' = JArr raws"
      and m: "map (epicChild pf baseUrl) raws = map Inr rs"
    by blast
  from m have "list_all2 (\<lambda>raw r. epicChild pf baseUrl raw = Inr r) raws rs"
    by (rule map_eq_map_Inr)
  moreover have "merged pf baseUrl raw r" if "epicChild pf baseUrl raw = Inr r" for raw r
  proof -
    from epicChild_Inr [OF that] obtain k commentsData issue cs
      where "js_to_string (js_opt raw ''key'') = Inr k"
        and "fetchJson pf baseUrl (commentsRequest k) GET = Inr commentsData"
        and "cleanIssue pf raw = Inr issue" and "cleanComments commentsData = Inr cs"
        and "comments r = Some cs"
        and "relatedIssues r = relatedIssues issue @ concat (map mentions cs)"
      by (auto simp: withComments_def)
    then show ?thesis
      unfolding merged_def by blast
  qed
  ultimately have "list_all2 (merged pf baseUrl) raws rs"
    by (rule list_all2_mono)
  with d i show "\<exists>data raws. fetchJson pf baseUrl (epicChildrenRequest pf epicKey) GET = Inr data \<and>
         js_opt data ''issues'' = JArr raws \<and> list_all2 (merged pf baseUrl) raws rs"
    by blast
qed

text \<open>
  A service with the record \<^verbatim>\<open>AB-1\<close>, its two comments, and an answer to the search
  for the children of the epic \<^verbatim>\<open>EP-1\<close>. It has no answer for the epic itself.
\<close>

definition sample_cleaned_comments :: "cleanComment list" where
  "sample_cleaned_comments =
     [\<lparr>comment_id = JStr ''1'', body = ''X-1'', author = JUndef, comment_created = JUndef,
       comment_updated = JUndef, mentions = [mention Comment (JStr ''1'') ''X-1'']\<rparr>,
      \<lparr>comment_id = JStr ''2'', body = ''Y-2 X-1'', author = JUndef, comment_created = JUndef,
       comment_updated = JUndef,
       mentions = [mention Comment (JStr ''2'') ''Y-2'', mention Comment (JStr ''2'') ''X-1'']\<rparr>]"

definition sample_service :: platform where
  "sample_service =
     serving [(''/rest/api/3/issue/AB-1?'' @ issue_query, ok_response sample_issue),
              (''/rest/api/3/issue/AB-1/comment'', ok_response sample_comments),
              (''/rest/api/3/search?jql=%22Epic+Link%22+%3D+EP-1&maxResults=100&'' @ issue_query,
               ok_response (JObj [(''issues'', JArr [sample_issue])]))]"

lemma cleanComments_sample: "cleanComments sample_comments = Inr sample_cleaned_comments"
  by (simp add: cleanComments_def sample_comments_def js_map_def cleanComment_def
      extractTextContent_text_node extractIssueMentions_text_node match_sample_keys dedupe_samples
      sample_cleaned_comments_def Let_def
      del: extractTextContent.simps match_all_keys.simps)

lemma sample_service_requests:
  "fetchJson sample_service [] (issueRequest sample_service ''AB-1'') GET = Inr sample_issue"
  "fetchJson sample_service [] (commentsRequest ''AB-1'') GET = Inr sample_comments"
  "fetchJson sample_service [] (epicChildrenRequest sample_service ''EP-1'') GET =
     Inr (JObj [(''issues'', JArr [sample_issue])])"
  "fetchJson sample_service [] ''/rest/api/3/issue/EP-1?fields=summary'' GET = Inl (TypeError ''fetch failed'')"
  unfolding sample_service_def issueRequest_def commentsRequest_def epicChildrenRequest_def
    fetchJson_serving serving_fields issue_query_encoded epic_query_encoded
  by (simp_all add: response_fields issue_query_def)

lemma sample_fetchIssueAndComments:
  "fetchIssueAndComments sample_service [] [] ''AB-1'' = Inr (sample_issue, sample_comments)"
  by (simp add: fetchIssueAndComments_def promise_all_def fetchIssue_request fetchComments_request
      sample_service_requests)

lemma sample_assembleIssue:
  "assembleIssue sample_service sample_issue sample_comments =
     Inr (withComments sample_cleaned sample_cleaned_comments)"
  by (simp add: assembleIssue_def cleanIssue_sample cleanComments_sample)

lemma sample_epicSummary:
  "epicSummary sample_service [] (JStr ''EP-1'') = Inl (TypeError ''fetch failed'')"
  by (simp add: epicSummary_def sample_service_requests)

lemma sample_getIssueWithComments:
  "getIssueWithComments sample_service [] [] ''AB-1'' =
     ([(''Failed to fetch epic details:'', TypeError ''fetch failed'')],
      Inr (withComments sample_cleaned sample_cleaned_comments))"
  by (simp add: getIssueWithComments_def sample_fetchIssueAndComments sample_assembleIssue)
     (simp add: withComments_def sample_cleaned_def sample_epicSummary)

lemma sample_epicChild:
  "epicChild sample_service [] sample_issue =
     Inr (withComments sample_cleaned sample_cleaned_comments)"
proof -
  have "js_get sample_issue ''key'' = Inr (JStr ''AB-1'')"
    by (simp add: sample_issue_def)
  then show ?thesis
    by (simp add: epicChild_def fetchComments_request sample_service_requests cleanIssue_sample
        cleanComments_sample)
qed

lemma sample_getEpicChildren:
  "getEpicChildren sample_service [] [] ''EP-1'' =
     Inr [withComments sample_cleaned sample_cleaned_comments]"
proof -
  have "getEpicChildren sample_service [] [] ''EP-1'' =
      andThen (fetchJson sample_service [] (epicChildrenRequest sample_service ''EP-1'') GET) (\<lambda>data.
      andThen (js_get data ''issues'') (\<lambda>found.
        case found of
          JArr xs \<Rightarrow> promise_all [] (map (epicChild sample_service []) xs)
        | JUndef \<Rightarrow> Inl not_an_object
        | JNull \<Rightarrow> Inl not_an_object
        | _ \<Rightarrow> Inl not_a_function))"
    by (simp add: getEpicChildren_def epicChildrenRequest_def issueFields_def)
  then show ?thesis
    by (simp add: sample_service_requests sample_epicChild promise_all_def)
qed

text \<open>
  Two comments with the mentions \<^verbatim>\<open>[X-1]\<close> and \<^verbatim>\<open>[Y-2, X-1]\<close>: the list is
  the narrative list followed by \<^verbatim>\<open>X-1, Y-2, X-1\<close>.
\<close>

theorem aggregates_append_comment_mentions_witness:
  "snd (getIssueWithComments sample_service [] [] ''AB-1'') =
     Inr (withComments sample_cleaned sample_cleaned_comments) \<and>
   getEpicChildren sample_service [] [] ''EP-1'' =
     Inr [withComments sample_cleaned sample_cleaned_comments] \<and>
   merged sample_service [] sample_issue (withComments sample_cleaned sample_cleaned_comments) \<and>
   map rel_key (relatedIssues sample_cleaned) = [JStr ''A-1'', JStr ''B-2'', JStr ''C-3''] \<and>
   map (\<lambda>c. map rel_key (mentions c)) sample_cleaned_comments =
     [[JStr ''X-1''], [JStr ''Y-2'', JStr ''X-1'']] \<and>
   map rel_key (relatedIssues (withComments sample_cleaned sample_cleaned_comments)) =
     [JStr ''A-1'', JStr ''B-2'', JStr ''C-3'', JStr ''X-1'', JStr ''Y-2'', JStr ''X-1'']"
proof -
  let ?r = "withComments sample_cleaned sample_cleaned_comments"
  have one: "snd (getIssueWithComments sample_service [] [] ''AB-1'') = Inr ?r"
    by (simp add: sample_getIssueWithComments)
  have all: "getEpicChildren sample_service [] [] ''EP-1'' = Inr [?r]"
    by (rule sample_getEpicChildren)
  note facts = aggregates_append_comment_mentions
         [of sample_service "[]" "[]" "''AB-1''" ?r "''EP-1''" "[?r]"]
  from facts one obtain issue cs where "cleanIssue sample_service sample_issue = Inr issue"
    and "cleanComments sample_comments = Inr cs"
    and "relatedIssues ?r = relatedIssues issue @ concat (map mentions cs)"
    by (auto simp: sample_service_requests)
  then have "relatedIssues ?r =
      relatedIssues sample_cleaned @ concat (map mentions sample_cleaned_comments)"
    by (simp add: cleanIssue_sample cleanComments_sample)
  then have "map rel_key (relatedIssues ?r) =
     [JStr ''A-1'', JStr ''B-2'', JStr ''C-3'', JStr ''X-1'', JStr ''Y-2'', JStr ''X-1'']"
    by (simp add: sample_cleaned_def sample_cleaned_comments_def mention_def)
  moreover from facts all have "merged sample_service [] sample_issue ?r"
    by (auto simp: sample_service_requests)
  moreover have "map rel_key (relatedIssues sample_cleaned) = [JStr ''A-1'', JStr ''B-2'', JStr ''C-3'']"
    by (simp add: sample_cleaned_def mention_def)
  moreover have "map (\<lambda>c. map rel_key (mentions c)) sample_cleaned_comments =
     [[JStr ''X-1''], [JStr ''Y-2'', JStr ''X-1'']]"
    by (simp add: sample_cleaned_comments_def mention_def)
  ultimately show ?thesis
    using one all by (simp only: simp_thms)
qed

section \<open>The follow-up for the epic's summary\<close>

lemma assembleIssue_epicLink:
  assumes "assembleIssue pf issueData commentsData = Inr issue" and "epicLink issue = Some link"
  shows "ref_summary link = JUndef"
proof -
  from assembleIssue_Inr [OF assms(1)] obtain cleaned cs
    where c: "cleanIssue pf issueData = Inr cleaned" and "issue = withComments cleaned cs"
    by blast
  with assms(2) have "epicLink cleaned = Some link"
    by (simp add: withComments_def)
  with cleanIssue_Inr [OF c] show ?thesis
    by (auto split: if_splits)
qed

text \<open>
  Claim C7. When the pair of requests has succeeded, the record is assembled and carries an
  \<^verbatim>\<open>epicLink\<close>, and the follow-up for the epic's summary fails, then
  \<^verbatim>\<open>getIssueWithComments\<close> returns the record exactly as assembled, with the summary of
  the epic link unset; the failure is written to the console and not thrown.
\<close>

theorem epic_followup_failure_swallowed:
  assumes "fetchIssueAndComments pf baseUrl settled issueId = Inr (issueData, commentsData)"
    and "assembleIssue pf issueData commentsData = Inr issue"
    and "epicLink issue = Some link"
    and "epicSummary pf baseUrl (ref_key link) = Inl e"
  shows "getIssueWithComments pf baseUrl settled issueId =
           ([(''Failed to fetch epic details:'', e)], Inr issue) \<and>
         ref_summary link = JUndef"
  using assms assembleIssue_epicLink [OF assms(2, 3)]
  by (simp add: getIssueWithComments_def)

text \<open>The sample service has no answer for the epic: the request fails.\<close>

theorem epic_followup_failure_swallowed_witness:
  "fetchIssueAndComments sample_service [] [] ''AB-1'' = Inr (sample_issue, sample_comments) \<and>
   assembleIssue sample_service sample_issue sample_comments =
     Inr (withComments sample_cleaned sample_cleaned_comments) \<and>
   epicLink (withComments sample_cleaned sample_cleaned_comments) =
     Some \<lparr>ref_id = JStr ''EP-1'', ref_key = JStr ''EP-1'', ref_summary = JUndef\<rparr> \<and>
   epicSummary sample_service [] (JStr ''EP-1'') = Inl (TypeError ''fetch failed'') \<and>
   getIssueWithComments sample_service [] [] ''AB-1'' =
     ([(''Failed to fetch epic details:'', TypeError ''fetch failed'')],
      Inr (withComments sample_cleaned sample_cleaned_comments))"
proof -
  let ?link = "\<lparr>ref_id = JStr ''EP-1'', ref_key = JStr ''EP-1'', ref_summary = JUndef\<rparr>"
  have l: "epicLink (withComments sample_cleaned sample_cleaned_comments) = Some ?link"
    by (simp add: withComments_def sample_cleaned_def)
  have s: "epicSummary sample_service [] (ref_key ?link) = Inl (TypeError ''fetch failed'')"
    by (simp add: sample_epicSummary)
  from epic_followup_failure_swallowed [OF sample_fetchIssueAndComments sample_assembleIssue l s]
    sample_fetchIssueAndComments sample_assembleIssue l sample_epicSummary
  show ?thesis
    by (simp only: simp_thms)
qed

section \<open>The translation of a not-found status\<close>

text \<open>
  The vocabulary of the claim. \<open>joined\<close> is the joined pair of requests, the record
  first. Of the two, the record request settles first unless the index of the comments
  request comes first in the order of settlement. A response reports a not-found status
  when it is not \<^verbatim>\<open>ok\<close> and its status is 404. The message of a failed response
  converts when the value \<^verbatim>\<open>handleFetchError\<close> chooses for \<^verbatim>\<open>message\<close> is
  falsy, and left out, or has a conversion to a string.
\<close>

definition joined :: "platform \<Rightarrow> string \<Rightarrow> nat list \<Rightarrow> string \<Rightarrow> error + json list" where
  "joined pf baseUrl settled issueId =
     promise_all settled
       [fetchJson pf baseUrl (issueRequest pf issueId) GET,
        fetchJson pf baseUrl (commentsRequest issueId) GET]"

definition recordSettlesFirst :: "nat list \<Rightarrow> bool" where
  "recordSettlesFirst settled = (find (\<lambda>i. i < 2) settled \<noteq> Some 1)"

definition notFound :: "response \<Rightarrow> bool" where
  "notFound response = (\<not> ok response \<and> status response = 404)"

definition messageConverts :: "response \<Rightarrow> bool" where
  "messageConverts response =
     (truthy (fst (errorBody response)) \<longrightarrow>
        \<not> isl (js_to_string (fst (errorBody response))))"

definition marked :: "error \<Rightarrow> bool" where
  "marked e = str_includes (error_message e) ''(Status: 404)''"

lemma str_includes_here: "str_includes (sub @ post) sub"
proof (cases "sub @ post")
  case Nil
  then show ?thesis by simp
next
  case (Cons c cs)
  have "take (length sub) (sub @ post) = sub"
    by simp
  then show ?thesis
    by (simp add: Cons)
qed

lemma str_includes_append: "str_includes (pre @ sub @ post) sub"
proof (induction pre)
  case Nil
  then show ?case by (simp add: str_includes_here)
next
  case (Cons c pre)
  then show ?case by simp
qed

lemma dec_404: "dec 404 = ''404''"
  by (simp add: dec.simps)

lemma js_to_string_error:
  "js_to_string v = Inl e \<Longrightarrow> e = not_primitive"
  "js_elements_to_strings vs = Inl e \<Longrightarrow> e = not_primitive"
  by (induction v and vs arbitrary: e and e rule: js_to_string_js_elements_to_strings.induct)
    (auto split: sum.splits if_splits)

lemma not_primitive_unmarked: "\<not> marked not_primitive"
  by (simp add: marked_def not_primitive_def)

lemma handleFetchError_converts:
  assumes "notFound response" and "messageConverts response"
  shows "\<exists>m. handleFetchError pf response = Error m \<and> str_includes m ''(Status: 404)''"
proof -
  obtain message errorData where b: "errorBody response = (message, errorData)"
    by (cases "errorBody response")
  with assms(2) have "\<exists>errorMessage.
      (if truthy message then andThen (js_to_string message) (\<lambda>s. Inr ('': '' @ s))
       else Inr []) = Inr errorMessage"
    by (cases "js_to_string message") (auto simp: messageConverts_def)
  then obtain errorMessage
    where "(if truthy message then andThen (js_to_string message) (\<lambda>s. Inr ('': '' @ s))
            else Inr []) = Inr errorMessage"
    by blast
  with assms(1) b have "handleFetchError pf response =
        Error ((''JIRA API Error'' @ errorCategory 404 @ errorMessage @ '' '') @
               ''(Status: 404)'' @ CHR 0x0A # ''Details: '' @ JSON_stringify pf errorData)"
    by (simp add: handleFetchError_def notFound_def dec_404)
  moreover have "str_includes
      ((''JIRA API Error'' @ errorCategory 404 @ errorMessage @ '' '') @
       ''(Status: 404)'' @ CHR 0x0A # ''Details: '' @ JSON_stringify pf errorData) ''(Status: 404)''"
    by (rule str_includes_append)
  ultimately show ?thesis by blast
qed

lemma handleFetchError_unconverted:
  assumes "notFound response" and "\<not> messageConverts response"
  shows "handleFetchError pf response = not_primitive"
proof -
  obtain message errorData where b: "errorBody response = (message, errorData)"
    by (cases "errorBody response")
  with assms(2) have "truthy message \<and> (\<exists>e. js_to_string message = Inl e)"
    by (cases "js_to_string message") (auto simp: messageConverts_def)
  then obtain e where t: "truthy message" and e: "js_to_string message = Inl e"
    by blast
  from js_to_string_error(1) [OF e] have "e = not_primitive" .
  with assms(1) b t e show ?thesis
    by (simp add: handleFetchError_def notFound_def)
qed

lemma fetchJson_notFound:
  assumes "fetch pf (baseUrl @ url) GET = Inr response" and "notFound response"
  shows "messageConverts response \<Longrightarrow> \<exists>m. fetchJson pf baseUrl url GET = Inl (Error m) \<and> marked (Error m)"
    and "\<not> messageConverts response \<Longrightarrow> fetchJson pf baseUrl url GET = Inl not_primitive"
proof -
  from assms have f: "fetchJson pf baseUrl url GET = Inl (handleFetchError pf response)"
    by (simp add: fetchJson_def notFound_def)
  show "\<exists>m. fetchJson pf baseUrl url GET = Inl (Error m) \<and> marked (Error m)"
    if "messageConverts response"
    using handleFetchError_converts [OF assms(2) that] f by (auto simp: marked_def)
  show "fetchJson pf baseUrl url GET = Inl not_primitive" if "\<not> messageConverts response"
    using handleFetchError_unconverted [OF assms(2) that] f by simp
qed

lemma promise_all_pair:
  "promise_all settled [Inl e, Inr y] = Inl e"
  "promise_all settled [Inr x, Inl e] = Inl e"
  "promise_all settled [Inl e, Inl e'] = Inl (if recordSettlesFirst settled then e else e')"
proof -
  show "promise_all settled [Inl e, Inr y] = Inl e"
    by (induction settled) (auto simp: promise_all_def less_Suc_eq)
  show "promise_all settled [Inr x, Inl e] = Inl e"
    by (induction settled) (auto simp: promise_all_def less_Suc_eq)
  show "promise_all settled [Inl e, Inl e'] = Inl (if recordSettlesFirst settled then e else e')"
    by (induction settled) (auto simp: promise_all_def recordSettlesFirst_def less_Suc_eq numeral_2_eq_2)
qed

lemma joined_record:
  assumes "fetchJson pf baseUrl (issueRequest pf issueId) GET = Inl e"
    and "\<not> isl (fetchJson pf baseUrl (commentsRequest issueId) GET) \<or> recordSettlesFirst settled"
  shows "joined pf baseUrl settled issueId = Inl e"
  using assms
  by (cases "fetchJson pf baseUrl (commentsRequest issueId) GET")
    (auto simp: joined_def promise_all_pair)

lemma joined_comments:
  assumes "fetchJson pf baseUrl (commentsRequest issueId) GET = Inl e"
    and "\<not> isl (fetchJson pf baseUrl (issueRequest pf issueId) GET) \<or> \<not> recordSettlesFirst settled"
  shows "joined pf baseUrl settled issueId = Inl e"
  using assms
  by (cases "fetchJson pf baseUrl (issueRequest pf issueId) GET")
    (auto simp: joined_def promise_all_pair)

lemma getIssueWithComments_rejected:
  assumes "joined pf baseUrl settled issueId = Inl e"
  shows "getIssueWithComments pf baseUrl settled issueId =
           ([], Inl (if marked e then Error (''Issue not found: '' @ issueId) else e))"
  using assms
  by (simp add: getIssueWithComments_def fetchIssueAndComments_def joined_def
      fetchIssue_request fetchComments_request marked_def)

text \<open>
  Claim C6, amended. When the joined pair of requests rejects with an error whose message
  contains \<^verbatim>\<open>(Status: 404)\<close>, \<^verbatim>\<open>getIssueWithComments\<close> fails with
  \<^verbatim>\<open>Issue not found: <id>\<close>; when it rejects with any other error, that error is
  thrown unchanged. The pair rejects with the rejection of the record request when the
  comments request fulfils or the record request settles first, and with the rejection of
  the comments request when the record request fulfils or the comments request settles
  first.

  So a not-found status on the record request, the comments request fulfilling or
  settling later, is reported as \<^verbatim>\<open>Issue not found: <id>\<close> when the message of the
  response converts; when it does not, the \<^verbatim>\<open>TypeError\<close> of the conversion is
  what the operation throws. A not-found status on the comments request, the record request
  fulfilling or settling later, is reported as \<^verbatim>\<open>Issue not found: <id>\<close> too.
\<close>

theorem not_found_translation:
  "(joined pf baseUrl settled issueId = Inl e \<and> marked e \<longrightarrow>
      getIssueWithComments pf baseUrl settled issueId =
        ([], Inl (Error (''Issue not found: '' @ issueId)))) \<and>
   (joined pf baseUrl settled issueId = Inl e \<and> \<not> marked e \<longrightarrow>
      getIssueWithComments pf baseUrl settled issueId = ([], Inl e)) \<and>
   (fetchJson pf baseUrl (issueRequest pf issueId) GET = Inl e \<and>
    (\<not> isl (fetchJson pf baseUrl (commentsRequest issueId) GET) \<or> recordSettlesFirst settled) \<longrightarrow>
      joined pf baseUrl settled issueId = Inl e) \<and>
   (fetchJson pf baseUrl (commentsRequest issueId) GET = Inl e \<and>
    (\<not> isl (fetchJson pf baseUrl (issueRequest pf issueId) GET) \<or> \<not> recordSettlesFirst settled) \<longrightarrow>
      joined pf baseUrl settled issueId = Inl e) \<and>
   (fetch pf (baseUrl @ issueRequest pf issueId) GET = Inr response \<and> notFound response \<and>
    messageConverts response \<and>
    (\<not> isl (fetchJson pf baseUrl (commentsRequest issueId) GET) \<or> recordSettlesFirst settled) \<longrightarrow>
      getIssueWithComments pf baseUrl settled issueId =
        ([], Inl (Error (''Issue not found: '' @ issueId)))) \<and>
   (fetch pf (baseUrl @ issueRequest pf issueId) GET = Inr response \<and> notFound response \<and>
    \<not> messageConverts response \<and>
    (\<not> isl (fetchJson pf baseUrl (commentsRequest issueId) GET) \<or> recordSettlesFirst settled) \<longrightarrow>
      getIssueWithComments pf baseUrl settled issueId = ([], Inl not_primitive)) \<and>
   (fetch pf (baseUrl @ commentsRequest issueId) GET = Inr response \<and> notFound response \<and>
    messageConverts response \<and>
    (\<not> isl (fetchJson pf baseUrl (issueRequest pf issueId) GET) \<or> \<not> recordSettlesFirst settled) \<longrightarrow>
      getIssueWithComments pf baseUrl settled issueId =
        ([], Inl (Error (''Issue not found: '' @ issueId))))"
proof (intro conjI impI)
  assume "joined pf baseUrl settled issueId = Inl e \<and> marked e"
  then show "getIssueWithComments pf baseUrl settled issueId =
        ([], Inl (Error (''Issue not found: '' @ issueId)))"
    by (simp add: getIssueWithComments_rejected)
next
  assume "joined pf baseUrl settled issueId = Inl e \<and> \<not> marked e"
  then show "getIssueWithComments pf baseUrl settled issueId = ([], Inl e)"
    by (simp add: getIssueWithComments_rejected)
next
  assume "fetchJson pf baseUrl (issueRequest pf issueId) GET = Inl e \<and>
    (\<not> isl (fetchJson pf baseUrl (commentsRequest issueId) GET) \<or> recordSettlesFirst settled)"
  then show "joined pf baseUrl settled issueId = Inl e"
    by (intro joined_record) blast+
next
  assume "fetchJson pf baseUrl (commentsRequest issueId) GET = Inl e \<and>
    (\<not> isl (fetchJson pf baseUrl (issueRequest pf issueId) GET) \<or> \<not> recordSettlesFirst settled)"
  then show "joined pf baseUrl settled issueId = Inl e"
    by (intro joined_comments) blast+
next
  assume a: "fetch pf (baseUrl @ issueRequest pf issueId) GET = Inr response \<and> notFound response \<and>
    messageConverts response \<and>
    (\<not> isl (fetchJson pf baseUrl (commentsRequest issueId) GET) \<or> recordSettlesFirst settled)"
  then obtain m where m: "fetchJson pf baseUrl (issueRequest pf issueId) GET = Inl (Error m)"
    and "marked (Error m)"
    using fetchJson_notFound(1) [of pf baseUrl "issueRequest pf issueId" response] by blast
  moreover from a m have "joined pf baseUrl settled issueId = Inl (Error m)"
    by (intro joined_record) blast+
  ultimately show "getIssueWithComments pf baseUrl settled issueId =
        ([], Inl (Error (''Issue not found: '' @ issueId)))"
    by (simp add: getIssueWithComments_rejected)
next
  assume a: "fetch pf (baseUrl @ issueRequest pf issueId) GET = Inr response \<and> notFound response \<and>
    \<not> messageConverts response \<and>
    (\<not> isl (fetchJson pf baseUrl (commentsRequest issueId) GET) \<or> recordSettlesFirst settled)"
  then have m: "fetchJson pf baseUrl (issueRequest pf issueId) GET = Inl not_primitive"
    using fetchJson_notFound(2) [of pf baseUrl "issueRequest pf issueId" response] by blast
  with a have "joined pf baseUrl settled issueId = Inl not_primitive"
    by (intro joined_record) blast+
  then show "getIssueWithComments pf baseUrl settled issueId = ([], Inl not_primitive)"
    by (simp add: getIssueWithComments_rejected not_primitive_unmarked)
next
  assume a: "fetch pf (baseUrl @ commentsRequest issueId) GET = Inr response \<and> notFound response \<and>
    messageConverts response \<and>
    (\<not> isl (fetchJson pf baseUrl (issueRequest pf issueId) GET) \<or> \<not> recordSettlesFirst settled)"
  then obtain m where m: "fetchJson pf baseUrl (commentsRequest issueId) GET = Inl (Error m)"
    and "marked (Error m)"
    using fetchJson_notFound(1) [of pf baseUrl "commentsRequest issueId" response] by blast
  moreover from a m have "joined pf baseUrl settled issueId = Inl (Error m)"
    by (intro joined_comments) blast+
  ultimately show "getIssueWithComments pf baseUrl settled issueId =
        ([], Inl (Error (''Issue not found: '' @ issueId)))"
    by (simp add: getIssueWithComments_rejected)
qed

text \<open>
  Four services: one without the record, one without the comments, one on which the
  record is missing and the request for the comments meets a server error, and one that
  reports the missing record with a message that has no conversion to a string.
\<close>

definition not_found_error :: error where
  "not_found_error =
     Error (''JIRA API Error [NOT_FOUND_ERROR]: Not Found (Status: 404)'' @ CHR 0x0A # ''Details: {}'')"

definition server_error :: error where
  "server_error =
     Error (''JIRA API Error [SERVER_ERROR]: Internal Server Error (Status: 500)'' @
            CHR 0x0A # ''Details: {}'')"

definition missing :: response where
  "missing = failed_response 404 ''Not Found'' (JObj [])"

definition broken :: response where
  "broken = failed_response 500 ''Internal Server Error'' (JObj [])"

definition unreadable :: response where
  "unreadable =
     failed_response 404 ''Not Found'' (JObj [(''message'', JObj [(''toString'', JNum ''1'')])])"

definition issue_missing_service :: platform where
  "issue_missing_service =
     serving [(''/rest/api/3/issue/AB-1?'' @ issue_query, missing),
              (''/rest/api/3/issue/AB-1/comment'', ok_response sample_comments)]"

definition comments_missing_service :: platform where
  "comments_missing_service =
     serving [(''/rest/api/3/issue/AB-1?'' @ issue_query, ok_response sample_issue),
              (''/rest/api/3/issue/AB-1/comment'', missing)]"

definition failing_service :: platform where
  "failing_service =
     serving [(''/rest/api/3/issue/AB-1?'' @ issue_query, missing),
              (''/rest/api/3/issue/AB-1/comment'', broken)]"

definition unreadable_service :: platform where
  "unreadable_service =
     serving [(''/rest/api/3/issue/AB-1?'' @ issue_query, unreadable),
              (''/rest/api/3/issue/AB-1/comment'', ok_response sample_comments)]"

lemma sample_errorBody:
  "errorBody missing = (JStr ''Not Found'', JObj [])"
  "errorBody broken = (JStr ''Internal Server Error'', JObj [])"
  "errorBody unreadable =
     (JObj [(''toString'', JNum ''1'')], JObj [(''message'', JObj [(''toString'', JNum ''1'')])])"
  by (simp_all add: errorBody_def missing_def broken_def unreadable_def response_fields
      chooseMessage_def)

lemma sample_responses:
  "notFound missing" "messageConverts missing"
  "notFound unreadable" "\<not> messageConverts unreadable"
  by (simp_all add: notFound_def messageConverts_def sample_errorBody)
    (simp_all add: missing_def unreadable_def response_fields)

lemma handleFetchError_samples:
  "handleFetchError (serving table) missing = not_found_error"
  "handleFetchError (serving table) broken = server_error"
  "handleFetchError (serving table) unreadable = not_primitive"
  by (simp_all add: handleFetchError_def sample_errorBody)
    (simp_all add: missing_def broken_def unreadable_def response_fields errorCategory_def
      dec.simps not_found_error_def server_error_def)

lemma sample_errors:
  "marked not_found_error" "\<not> marked server_error"
  by (simp_all add: marked_def not_found_error_def server_error_def)

lemma failed_not_ok:
  "\<not> ok missing" "\<not> ok broken" "\<not> ok unreadable"
  by (simp_all add: missing_def broken_def unreadable_def response_fields)

lemma issue_missing_requests:
  "fetch issue_missing_service ([] @ issueRequest issue_missing_service ''AB-1'') GET = Inr missing"
  "fetchJson issue_missing_service [] (issueRequest issue_missing_service ''AB-1'') GET = Inl not_found_error"
  "fetchJson issue_missing_service [] (commentsRequest ''AB-1'') GET = Inr sample_comments"
  unfolding issue_missing_service_def issueRequest_def commentsRequest_def
    fetchJson_serving serving_fields issue_query_encoded
  by (simp_all add: fetch_serving handleFetchError_samples response_fields failed_not_ok issue_query_def)

lemma comments_missing_requests:
  "fetch comments_missing_service ([] @ commentsRequest ''AB-1'') GET = Inr missing"
  "fetchJson comments_missing_service [] (issueRequest comments_missing_service ''AB-1'') GET = Inr sample_issue"
  "fetchJson comments_missing_service [] (commentsRequest ''AB-1'') GET = Inl not_found_error"
  unfolding comments_missing_service_def issueRequest_def commentsRequest_def
    fetchJson_serving serving_fields issue_query_encoded
  by (simp_all add: fetch_serving handleFetchError_samples response_fields failed_not_ok issue_query_def)

lemma failing_requests:
  "fetch failing_service ([] @ issueRequest failing_service ''AB-1'') GET = Inr missing"
  "fetchJson failing_service [] (issueRequest failing_service ''AB-1'') GET = Inl not_found_error"
  "fetchJson failing_service [] (commentsRequest ''AB-1'') GET = Inl server_error"
  unfolding failing_service_def issueRequest_def commentsRequest_def
    fetchJson_serving serving_fields issue_query_encoded
  by (simp_all add: fetch_serving handleFetchError_samples response_fields failed_not_ok issue_query_def)

lemma unreadable_requests:
  "fetch unreadable_service ([] @ issueRequest unreadable_service ''AB-1'') GET = Inr unreadable"
  "fetchJson unreadable_service [] (commentsRequest ''AB-1'') GET = Inr sample_comments"
  unfolding unreadable_service_def issueRequest_def commentsRequest_def
    fetchJson_serving serving_fields issue_query_encoded
  by (simp_all add: fetch_serving response_fields failed_not_ok issue_query_def)

lemma sample_orders:
  "recordSettlesFirst [0, 1]" "\<not> recordSettlesFirst [1, 0]" "recordSettlesFirst []"
  by (simp_all add: recordSettlesFirst_def)

text \<open>
  Without the record the operation reports that the issue was not found, and so it does
  without the comments. Where both requests fail, the outcome follows the request that
  settles first. The message without a conversion comes out as the \<^verbatim>\<open>TypeError\<close>.
\<close>

theorem not_found_translation_witness:
  "fetch issue_missing_service (issueRequest issue_missing_service ''AB-1'') GET = Inr missing \<and>
   notFound missing \<and> messageConverts missing \<and>
   fetchJson issue_missing_service [] (commentsRequest ''AB-1'') GET = Inr sample_comments \<and>
   getIssueWithComments issue_missing_service [] [] ''AB-1'' =
     ([], Inl (Error ''Issue not found: AB-1'')) \<and>
   fetch comments_missing_service (commentsRequest ''AB-1'') GET = Inr missing \<and>
   fetchJson comments_missing_service [] (issueRequest comments_missing_service ''AB-1'') GET =
     Inr sample_issue \<and>
   getIssueWithComments comments_missing_service [] [] ''AB-1'' =
     ([], Inl (Error ''Issue not found: AB-1'')) \<and>
   fetch failing_service (issueRequest failing_service ''AB-1'') GET = Inr missing \<and>
   fetchJson failing_service [] (commentsRequest ''AB-1'') GET = Inl server_error \<and>
   \<not> marked server_error \<and>
   recordSettlesFirst [0, 1] \<and>
   getIssueWithComments failing_service [] [0, 1] ''AB-1'' =
     ([], Inl (Error ''Issue not found: AB-1'')) \<and>
   \<not> recordSettlesFirst [1, 0] \<and>
   joined failing_service [] [1, 0] ''AB-1'' = Inl server_error \<and>
   getIssueWithComments failing_service [] [1, 0] ''AB-1'' = ([], Inl server_error) \<and>
   fetch unreadable_service (issueRequest unreadable_service ''AB-1'') GET = Inr unreadable \<and>
   notFound unreadable \<and> \<not> messageConverts unreadable \<and>
   getIssueWithComments unreadable_service [] [] ''AB-1'' = ([], Inl not_primitive)"
proof -
  note t = not_found_translation [where baseUrl = "[]" and issueId = "''AB-1''"]
  have c: "messageConverts missing"
    "messageConverts missing"
    "messageConverts missing"
    "\<not> messageConverts unreadable"
    by (simp_all add: issue_missing_service_def comments_missing_service_def failing_service_def
        unreadable_service_def sample_responses)
  have 1: "getIssueWithComments issue_missing_service [] [] ''AB-1'' =
     ([], Inl (Error ''Issue not found: AB-1''))"
    using t [of issue_missing_service "[]" _ missing] issue_missing_requests sample_responses c
    by simp
  have 2: "getIssueWithComments comments_missing_service [] [] ''AB-1'' =
     ([], Inl (Error ''Issue not found: AB-1''))"
    using t [of comments_missing_service "[]" _ missing] comments_missing_requests sample_responses c
    by simp
  have 3: "getIssueWithComments failing_service [] [0, 1] ''AB-1'' =
     ([], Inl (Error ''Issue not found: AB-1''))"
    using t [of failing_service "[0, 1]" _ missing] failing_requests sample_responses c sample_orders
    by simp
  have 4: "joined failing_service [] [1, 0] ''AB-1'' = Inl server_error"
    using t [of failing_service "[1, 0]" server_error] failing_requests sample_orders
    by simp
  have 5: "getIssueWithComments failing_service [] [1, 0] ''AB-1'' = ([], Inl server_error)"
    using t [of failing_service "[1, 0]" server_error] 4 sample_errors
    by simp
  have 6: "getIssueWithComments unreadable_service [] [] ''AB-1'' = ([], Inl not_primitive)"
    using t [of unreadable_service "[]" _ unreadable] unreadable_requests sample_responses c
    by simp
  from 1 2 3 4 5 6 c issue_missing_requests comments_missing_requests failing_requests
    unreadable_requests sample_responses sample_errors sample_orders
  show ?thesis
    by simp
qed

text \<open>
  Claim C6 as stated fails twice. A 404 on the comments request, the record fetched, is
  not propagated as it is but reported as \<^verbatim>\<open>Issue not found\<close>. And when the record
  request meets a 404 and the comments request a 500 that settles first, the operation
  fails with the transport error of the comments request.
\<close>

theorem not_found_translation_counterexample:
  "fetchJson comments_missing_service [] (issueRequest comments_missing_service ''AB-1'') GET =
     Inr sample_issue \<and>
   fetchJson comments_missing_service [] (commentsRequest ''AB-1'') GET = Inl not_found_error \<and>
   getIssueWithComments comments_missing_service [] [] ''AB-1'' =
     ([], Inl (Error ''Issue not found: AB-1'')) \<and>
   Error ''Issue not found: AB-1'' \<noteq> not_found_error \<and>
   fetchJson failing_service [] (issueRequest failing_service ''AB-1'') GET = Inl not_found_error \<and>
   fetchJson failing_service [] (commentsRequest ''AB-1'') GET = Inl server_error \<and>
   getIssueWithComments failing_service [] [1, 0] ''AB-1'' = ([], Inl server_error) \<and>
   server_error \<noteq> Error ''Issue not found: AB-1''"
proof -
  have "getIssueWithComments comments_missing_service [] [] ''AB-1'' =
     ([], Inl (Error ''Issue not found: AB-1''))"
    by (simp add: getIssueWithComments_def fetchIssueAndComments_def promise_all_def
        fetchIssue_request fetchComments_request comments_missing_requests sample_errors [unfolded marked_def])
  moreover have "getIssueWithComments failing_service [] [1, 0] ''AB-1'' = ([], Inl server_error)"
    by (simp add: getIssueWithComments_def fetchIssueAndComments_def promise_all_def
        fetchIssue_request fetchComments_request failing_requests sample_errors [unfolded marked_def])
  moreover have "Error ''Issue not found: AB-1'' \<noteq> not_found_error"
    and "server_error \<noteq> Error ''Issue not found: AB-1''"
    by (simp_all add: not_found_error_def server_error_def)
  ultimately show ?thesis
    using comments_missing_requests failing_requests
    by (simp only: simp_thms)
qed

section \<open>Field discovery\<close>







definition issueTypeFields :: "platform \<Rightarrow> string \<Rightarrow> json \<Rightarrow> error + (string \<times> json) list" where
  "issueTypeFields pf issueType createMeta =
     andThen (js_get createMeta ''projects'') (\<lambda>projects.
     andThen (js_positive pf (js_opt_length projects)) (\<lambda>some.
       if some then
         andThen (js_get (js_first projects) ''issuetypes'') (\<lambda>issuetypes.
         andThen (js_opt_find (sameTypeName pf issueType) issuetypes) (\<lambda>storyIssueType.
           Inr (if truthy (js_opt storyIssueType ''fields'')
                then js_entries (js_opt storyIssueType ''fields'')
                else [])))
       else Inr []))"











lemma metadataField_issueTypeFields:
  "metadataField pf issueType createMeta =
     andThen (issueTypeFields pf issueType createMeta) (scanFields pf)"
proof (cases "js_get createMeta ''projects''")
  case (Inl e)
  then show ?thesis by (simp add: metadataField_def issueTypeFields_def)
next
  case projects: (Inr projects)
  show ?thesis
  proof (cases "js_positive pf (js_opt_length projects)")
    case (Inl e)
    with projects show ?thesis by (simp add: metadataField_def issueTypeFields_def)
  next
    case some: (Inr some)
    show ?thesis
    proof (cases some)
      case False
      with projects some show ?thesis by (simp add: metadataField_def issueTypeFields_def)
    next
      case True
      show ?thesis
      proof (cases "js_get (js_first projects) ''issuetypes''")
        case (Inl e)
        with projects some True show ?thesis by (simp add: metadataField_def issueTypeFields_def)
      next
        case issuetypes: (Inr issuetypes)
        with projects some True show ?thesis
          by (cases "js_opt_find (sameTypeName pf issueType) issuetypes")
            (simp_all add: metadataField_def issueTypeFields_def)
      qed
    qed
  qed
qed





lemma notFoundMessage_names_project:
  "str_includes (notFoundMessage projectKey) projectKey"
  unfolding notFoundMessage_def by (rule str_includes_append)

text \<open>
  Claim C9. When discovery for the project of the issue key yields \<^verbatim>\<open>null\<close>,
  \<^verbatim>\<open>updateStoryPoints\<close> sends no update request and fails with an error whose message
  names the project.
\<close>

theorem updateStoryPoints_not_found:
  assumes "snd (findStoryPointsField pf baseUrl (projectKeyOf issueKey) ''Story'') = Inr None"
  shows "updateStoryPoints pf baseUrl issueKey points =
           (fst (findStoryPointsField pf baseUrl (projectKeyOf issueKey) ''Story''), [],
            Inl (Error (notFoundMessage (projectKeyOf issueKey)))) \<and>
         str_includes (notFoundMessage (projectKeyOf issueKey)) (projectKeyOf issueKey)"
  using assms
  by (cases "findStoryPointsField pf baseUrl (projectKeyOf issueKey) ''Story''")
    (simp add: updateStoryPoints_def notFoundMessage_names_project)

text \<open>
  Claim C10. \<^verbatim>\<open>findStoryPointsField\<close> always returns: whatever its \<^verbatim>\<open>try\<close> block
  throws is caught, written to the console and answered with \<^verbatim>\<open>null\<close>, be it the
  failure of the metadata request, of the search for an issue to probe, or of the request
  for the probed issue. \<^verbatim>\<open>updateStoryPoints\<close> then fails in the same way as for a
  field that could not be resolved.
\<close>

theorem findStoryPointsField_never_rejects:
  "(\<exists>written found. findStoryPointsField pf baseUrl projectKey issueType = (written, Inr found)) \<and>
   (discoverField pf baseUrl projectKey issueType = Inl e \<longrightarrow>
      findStoryPointsField pf baseUrl projectKey issueType =
        ([(''Error finding story points field:'', e)], Inr None)) \<and>
   (getCreateMeta pf baseUrl projectKey issueType = Inl e \<longrightarrow>
      snd (findStoryPointsField pf baseUrl projectKey issueType) = Inr None) \<and>
   (getCreateMeta pf baseUrl projectKey issueType = Inr createMeta \<and>
    metadataField pf issueType createMeta = Inr None \<and>
    searchIssues pf baseUrl
      (''project = '' @ projectKey @ '' AND issuetype = '' @ [CHR 0x22] @ issueType @ [CHR 0x22]) =
      Inl e \<longrightarrow>
      snd (findStoryPointsField pf baseUrl projectKey issueType) = Inr None) \<and>
   (getCreateMeta pf baseUrl projectKey issueType = Inr createMeta \<and>
    metadataField pf issueType createMeta = Inr None \<and>
    searchIssues pf baseUrl
      (''project = '' @ projectKey @ '' AND issuetype = '' @ [CHR 0x22] @ issueType @ [CHR 0x22]) =
      Inr found \<and>
    issues found = testIssue # others \<and>
    js_to_string (issue_key testIssue) = Inr testIssueKey \<and>
    fetchJson pf baseUrl (''/rest/api/3/issue/'' @ testIssueKey @ ''?expand=names'') GET = Inl e \<longrightarrow>
      snd (findStoryPointsField pf baseUrl projectKey issueType) = Inr None) \<and>
   (discoverField pf baseUrl (projectKeyOf issueKey) ''Story'' = Inl e \<or>
    discoverField pf baseUrl (projectKeyOf issueKey) ''Story'' = Inr None \<longrightarrow>
      snd (updateStoryPoints pf baseUrl issueKey points) =
        ([], Inl (Error (notFoundMessage (projectKeyOf issueKey)))))"
proof (intro conjI impI)
  show "\<exists>written found. findStoryPointsField pf baseUrl projectKey issueType = (written, Inr found)"
    by (cases "discoverField pf baseUrl projectKey issueType")
      (simp_all add: findStoryPointsField_def)
next
  assume "discoverField pf baseUrl projectKey issueType = Inl e"
  then show "findStoryPointsField pf baseUrl projectKey issueType =
        ([(''Error finding story points field:'', e)], Inr None)"
    by (simp add: findStoryPointsField_def)
next
  assume "getCreateMeta pf baseUrl projectKey issueType = Inl e"
  then show "snd (findStoryPointsField pf baseUrl projectKey issueType) = Inr None"
    by (simp add: findStoryPointsField_def discoverField_def)
next
  assume "getCreateMeta pf baseUrl projectKey issueType = Inr createMeta \<and>
    metadataField pf issueType createMeta = Inr None \<and>
    searchIssues pf baseUrl
      (''project = '' @ projectKey @ '' AND issuetype = '' @ [CHR 0x22] @ issueType @ [CHR 0x22]) =
      Inl e"
  then show "snd (findStoryPointsField pf baseUrl projectKey issueType) = Inr None"
    by (simp add: findStoryPointsField_def discoverField_def probeIssue_def)
next
  assume "getCreateMeta pf baseUrl projectKey issueType = Inr createMeta \<and>
    metadataField pf issueType createMeta = Inr None \<and>
    searchIssues pf baseUrl
      (''project = '' @ projectKey @ '' AND issuetype = '' @ [CHR 0x22] @ issueType @ [CHR 0x22]) =
      Inr found \<and>
    issues found = testIssue # others \<and>
    js_to_string (issue_key testIssue) = Inr testIssueKey \<and>
    fetchJson pf baseUrl (''/rest/api/3/issue/'' @ testIssueKey @ ''?expand=names'') GET = Inl e"
  then show "snd (findStoryPointsField pf baseUrl projectKey issueType) = Inr None"
    by (simp add: findStoryPointsField_def discoverField_def probeIssue_def)
next
  assume "discoverField pf baseUrl (projectKeyOf issueKey) ''Story'' = Inl e \<or>
    discoverField pf baseUrl (projectKeyOf issueKey) ''Story'' = Inr None"
  then show "snd (updateStoryPoints pf baseUrl issueKey points) =
        ([], Inl (Error (notFoundMessage (projectKeyOf issueKey))))"
    by (auto simp: updateStoryPoints_def findStoryPointsField_def)
qed

text \<open>
  The requests of the examples, as the platform of the examples renders them: the
  creation metadata of project \<^verbatim>\<open>AB\<close> for the issue type \<^verbatim>\<open>Story\<close>, and the
  search for an issue of that project and type.
\<close>

lemma createmeta_query_encoded:
  "form_urlencoded
     [(''projectKeys'', ''AB''), (''expand'', ''projects.issuetypes.fields''),
      (''issuetypeNames'', ''Story'')] =
   ''projectKeys=AB&expand=projects.issuetypes.fields&issuetypeNames=Story''"
  by code_simp

lemma probe_query_encoded:
  "form_urlencoded
     [(''jql'', ''project = '' @ ''AB'' @ '' AND issuetype = '' @ CHR 0x22 # ''Story'' @ [CHR 0x22]),
      (''maxResults'', ''50''), (''fields'', issueFields), (''expand'', ''names,renderedFields'')] =
   ''jql=project+%3D+AB+AND+issuetype+%3D+%22Story%22&maxResults=50&'' @ issue_query"
  by code_simp

definition sample_createMeta :: json where
  "sample_createMeta =
     JObj [(''projects'',
            JArr [JObj [(''issuetypes'',
                         JArr [JObj [(''name'', JStr ''Bug''), (''fields'', JObj [])],
                               JObj [(''name'', JStr ''Story''),
                                     (''fields'',
                                      JObj [(''summary'', JObj [(''name'', JStr ''Summary'')]),
                                            (''customfield_10030'',
                                             JObj [(''name'', JStr ''Story Point Estimate'')]),
                                            (''customfield_10016'',
                                             JObj [(''name'', JStr ''Story Points'')])])]])]])]"

definition sample_fields :: "(string \<times> json) list" where
  "sample_fields =
     [(''summary'', JObj [(''name'', JStr ''Summary'')]),
      (''customfield_10030'', JObj [(''name'', JStr ''Story Point Estimate'')]),
      (''customfield_10016'', JObj [(''name'', JStr ''Story Points'')])]"

definition no_projects :: json where
  "no_projects = JObj [(''projects'', JArr [])]"

definition found_issue :: json where
  "found_issue =
     JObj [(''total'', JNum ''1''),
           (''issues'', JArr [JObj [(''key'', JStr ''AB-7''), (''fields'', JObj [])]])]"

definition sample_names :: json where
  "sample_names = JObj [(''names'', JObj [(''customfield_10016'', JStr ''Story Points'')])]"

text \<open>
  Four services. The first has metadata with two fields whose names match. The second
  has no metadata, and an issue of the type whose field names resolve an identifier of the
  shortlist. The third has neither metadata nor an issue of the type. The fourth has an
  issue of the type and no answer to the request for it.
\<close>

definition metadata_service :: platform where
  "metadata_service =
     serving [(''/rest/api/3/issue/createmeta?projectKeys=AB&expand=projects.issuetypes.fields&issuetypeNames=Story'',
               ok_response sample_createMeta)]"

definition probe_service :: platform where
  "probe_service =
     serving [(''/rest/api/3/issue/createmeta?projectKeys=AB&expand=projects.issuetypes.fields&issuetypeNames=Story'',
               ok_response no_projects),
              (''/rest/api/3/search?jql=project+%3D+AB+AND+issuetype+%3D+%22Story%22&maxResults=50&'' @ issue_query,
               ok_response found_issue),
              (''/rest/api/3/issue/AB-7?expand=names'', ok_response sample_names)]"

definition unresolved_service :: platform where
  "unresolved_service =
     serving [(''/rest/api/3/issue/createmeta?projectKeys=AB&expand=projects.issuetypes.fields&issuetypeNames=Story'',
               ok_response no_projects),
              (''/rest/api/3/search?jql=project+%3D+AB+AND+issuetype+%3D+%22Story%22&maxResults=50&'' @ issue_query,
               ok_response (JObj [(''total'', JNum ''0''), (''issues'', JArr [])]))]"

definition unprobed_service :: platform where
  "unprobed_service =
     serving [(''/rest/api/3/issue/createmeta?projectKeys=AB&expand=projects.issuetypes.fields&issuetypeNames=Story'',
               ok_response no_projects),
              (''/rest/api/3/search?jql=project+%3D+AB+AND+issuetype+%3D+%22Story%22&maxResults=50&'' @ issue_query,
               ok_response found_issue)]"

text \<open>
  A project whose issue type has a French name, a capital E with an acute accent
  (\<^verbatim>\<open>U+00C9\<close>) followed by \<^verbatim>\<open>pop\<close>, a small e with an acute accent
  (\<^verbatim>\<open>U+00E9\<close>) and \<^verbatim>\<open>e\<close>. The type is asked for in lower case.
\<close>

definition epopee :: string where
  "epopee = [CHR 0xC9, CHR ''p'', CHR ''o'', CHR ''p'', CHR 0xE9, CHR ''e'']"

definition epopee_lower :: string where
  "epopee_lower = [CHR 0xE9, CHR ''p'', CHR ''o'', CHR ''p'', CHR 0xE9, CHR ''e'']"

definition epopee_createMeta :: json where
  "epopee_createMeta =
     JObj [(''projects'',
            JArr [JObj [(''issuetypes'',
                         JArr [JObj [(''name'', JStr ''Bug''), (''fields'', JObj [])],
                               JObj [(''name'', JStr epopee),
                                     (''fields'',
                                      JObj [(''customfield_10016'',
                                             JObj [(''name'', JStr ''Story Points'')])])]])]])]"

definition epopee_service :: platform where
  "epopee_service =
     serving [(''/rest/api/3/issue/createmeta?projectKeys=AB&expand=projects.issuetypes.fields&issuetypeNames=%C3%A9pop%C3%A9e'',
               ok_response epopee_createMeta)]"

lemma epopee_query_encoded:
  "form_urlencoded
     [(''projectKeys'', ''AB''), (''expand'', ''projects.issuetypes.fields''),
      (''issuetypeNames'', epopee_lower)] =
   ''projectKeys=AB&expand=projects.issuetypes.fields&issuetypeNames=%C3%A9pop%C3%A9e''"
  by code_simp

lemma toLowerCase_samples:
  "toLowerCase ''Story'' = ''story''"
  "toLowerCase ''Bug'' = ''bug''"
  "toLowerCase ''Summary'' = ''summary''"
  "toLowerCase ''Story Point Estimate'' = ''story point estimate''"
  "toLowerCase ''Story Points'' = ''story points''"
  "toLowerCase epopee = epopee_lower"
  "toLowerCase epopee_lower = epopee_lower"
  by (simp_all add: toLowerCase_def lowerChar_def capitals_def smalls_def epopee_def epopee_lower_def)

lemma epopee_not_empty: "epopee_lower \<noteq> []" "''bug'' \<noteq> epopee_lower"
  by (simp_all add: epopee_lower_def)

lemma sample_getCreateMeta:
  "getCreateMeta metadata_service [] ''AB'' ''Story'' = Inr sample_createMeta"
  "getCreateMeta probe_service [] ''AB'' ''Story'' = Inr no_projects"
  "getCreateMeta unresolved_service [] ''AB'' ''Story'' = Inr no_projects"
  "getCreateMeta unprobed_service [] ''AB'' ''Story'' = Inr no_projects"
  "getCreateMeta epopee_service [] ''AB'' epopee_lower = Inr epopee_createMeta"
  "getCreateMeta (serving []) [] ''AB'' ''Story'' = Inl (TypeError ''fetch failed'')"
  unfolding getCreateMeta_def fetchJson_serving serving_fields metadata_service_def
    probe_service_def unresolved_service_def unprobed_service_def epopee_service_def
  by (simp_all add: createmeta_query_encoded epopee_query_encoded epopee_not_empty response_fields)

lemma sample_issueTypeFields:
  "issueTypeFields (serving table) ''Story'' sample_createMeta = Inr sample_fields"
  "issueTypeFields (serving table) ''Story'' no_projects = Inr []"
  "issueTypeFields (serving table) epopee_lower epopee_createMeta =
     Inr [(''customfield_10016'', JObj [(''name'', JStr ''Story Points'')])]"
  by (simp_all add: issueTypeFields_def sample_createMeta_def no_projects_def epopee_createMeta_def
      js_opt_find_def sameTypeName_def toLowerCase_samples epopee_not_empty sample_fields_def)



definition probed_issue :: cleanJiraIssue where
  "probed_issue =
     \<lparr>issue_id = JUndef, issue_key = JStr ''AB-7'', summary = JUndef, status = JUndef,
      created = JUndef, updated = JUndef, description = [], relatedIssues = [],
      storyPoints = None, parent = None, epicLink = None, children = None, comments = None\<rparr>"

lemma cleanIssue_probed:
  "cleanIssue pf (JObj [(''key'', JStr ''AB-7''), (''fields'', JObj [])]) = Inr probed_issue"
  by (simp add: cleanIssue_def withStoryPoints_def withMentions_def withLinks_def withParent_def
      withEpicLink_def withChildren_def probed_issue_def)

lemma sample_searchIssues:
  "searchIssues probe_service []
     (''project = '' @ ''AB'' @ '' AND issuetype = '' @ CHR 0x22 # ''Story'' @ [CHR 0x22]) =
     Inr \<lparr>total = JNum ''1'', issues = [probed_issue]\<rparr>"
  "searchIssues unprobed_service []
     (''project = '' @ ''AB'' @ '' AND issuetype = '' @ CHR 0x22 # ''Story'' @ [CHR 0x22]) =
     Inr \<lparr>total = JNum ''1'', issues = [probed_issue]\<rparr>"
  "searchIssues unresolved_service []
     (''project = '' @ ''AB'' @ '' AND issuetype = '' @ CHR 0x22 # ''Story'' @ [CHR 0x22]) =
     Inr \<lparr>total = JNum ''0'', issues = []\<rparr>"
  "searchIssues metadata_service []
     (''project = '' @ ''AB'' @ '' AND issuetype = '' @ CHR 0x22 # ''Story'' @ [CHR 0x22]) =
     Inl (TypeError ''fetch failed'')"
  unfolding searchIssues_def fetchJson_serving serving_fields probe_service_def
    unprobed_service_def unresolved_service_def metadata_service_def probe_query_encoded
  by (simp_all add: response_fields found_issue_def js_map_def cleanIssue_probed issue_query_def)

lemma sample_probes:
  "fetchJson probe_service [] (''/rest/api/3/issue/'' @ ''AB-7'' @ ''?expand=names'') GET = Inr sample_names"
  "fetchJson unprobed_service [] (''/rest/api/3/issue/'' @ ''AB-7'' @ ''?expand=names'') GET =
     Inl (TypeError ''fetch failed'')"
  unfolding fetchJson_serving probe_service_def unprobed_service_def
  by (simp_all add: response_fields issue_query_def)


lemma probed_key: "js_to_string (issue_key probed_issue) = Inr ''AB-7''"
  by (simp add: probed_issue_def)


lemma sample_projectKey: "projectKeyOf ''AB-11'' = ''AB''"
  by (simp add: projectKeyOf_def)

lemma sample_discoverField:
  "discoverField unresolved_service [] ''AB'' ''Story'' = Inr None"
  "discoverField unprobed_service [] ''AB'' ''Story'' = Inl (TypeError ''fetch failed'')"
proof -
  have m: "metadataField unresolved_service ''Story'' no_projects = Inr None"
    "metadataField unprobed_service ''Story'' no_projects = Inr None"
    unfolding unresolved_service_def unprobed_service_def
    by (simp_all add: metadataField_issueTypeFields sample_issueTypeFields)
  show "discoverField unresolved_service [] ''AB'' ''Story'' = Inr None"
    using sample_searchIssues(3)
    by (simp add: discoverField_def sample_getCreateMeta m probeIssue_def)
  show "discoverField unprobed_service [] ''AB'' ''Story'' = Inl (TypeError ''fetch failed'')"
    using sample_searchIssues(2) sample_probes(2)
    by (simp add: discoverField_def sample_getCreateMeta m probeIssue_def probed_key)
qed

text \<open>On the service that resolves nothing, the update of \<^verbatim>\<open>AB-11\<close> fails naming \<^verbatim>\<open>AB\<close>.\<close>

theorem updateStoryPoints_not_found_witness:
  "findStoryPointsField unresolved_service [] ''AB'' ''Story'' = ([], Inr None) \<and>
   projectKeyOf ''AB-11'' = ''AB'' \<and>
   updateStoryPoints unresolved_service [] ''AB-11'' ''5'' =
     ([], [],
      Inl (Error ''Story points field not found for project AB. Please check if story points are configured for this project and issue type.'')) \<and>
   str_includes (notFoundMessage ''AB'') ''AB''"
proof -
  have f: "findStoryPointsField unresolved_service [] ''AB'' ''Story'' = ([], Inr None)"
    by (simp add: findStoryPointsField_def sample_discoverField)
  then have "snd (findStoryPointsField unresolved_service [] (projectKeyOf ''AB-11'') ''Story'') = Inr None"
    by (simp add: sample_projectKey)
  from updateStoryPoints_not_found [OF this, of "''5''"] f
  have "updateStoryPoints unresolved_service [] ''AB-11'' ''5'' =
      ([], [], Inl (Error (notFoundMessage ''AB'')))"
    and "str_includes (notFoundMessage ''AB'') ''AB''"
    by (simp_all add: sample_projectKey)
  with f show ?thesis
    by (simp add: sample_projectKey notFoundMessage_def)
qed

text \<open>
  A service that answers no request, a service that answers the search and not the
  request for the issue found, and the service that resolves nothing: the same result of
  discovery, the same failure of the update.
\<close>

theorem findStoryPointsField_never_rejects_witness:
  "getCreateMeta (serving []) [] ''AB'' ''Story'' = Inl (TypeError ''fetch failed'') \<and>
   findStoryPointsField (serving []) [] ''AB'' ''Story'' =
     ([(''Error finding story points field:'', TypeError ''fetch failed'')], Inr None) \<and>
   fetchJson unprobed_service [] ''/rest/api/3/issue/AB-7?expand=names'' GET =
     Inl (TypeError ''fetch failed'') \<and>
   findStoryPointsField unprobed_service [] ''AB'' ''Story'' =
     ([(''Error finding story points field:'', TypeError ''fetch failed'')], Inr None) \<and>
   discoverField unresolved_service [] ''AB'' ''Story'' = Inr None \<and>
   snd (findStoryPointsField (serving []) [] ''AB'' ''Story'') =
     snd (findStoryPointsField unresolved_service [] ''AB'' ''Story'') \<and>
   snd (updateStoryPoints (serving []) [] ''AB-11'' ''5'') =
     ([], Inl (Error (notFoundMessage ''AB''))) \<and>
   snd (updateStoryPoints unresolved_service [] ''AB-11'' ''5'') =
     ([], Inl (Error (notFoundMessage ''AB'')))"
proof -
  have m: "getCreateMeta (serving []) [] ''AB'' ''Story'' = Inl (TypeError ''fetch failed'')"
    by (rule sample_getCreateMeta)
  then have d: "discoverField (serving []) [] ''AB'' ''Story'' = Inl (TypeError ''fetch failed'')"
    by (simp add: discoverField_def)
  note u = sample_discoverField
  note offline = findStoryPointsField_never_rejects
      [where pf = "serving []" and baseUrl = "[]" and projectKey = "''AB''" and issueType = "''Story''"
        and e = "TypeError ''fetch failed''" and issueKey = "''AB-11''" and points = "''5''"]
  note unprobed = findStoryPointsField_never_rejects
      [where pf = unprobed_service and baseUrl = "[]" and projectKey = "''AB''" and issueType = "''Story''"
        and e = "TypeError ''fetch failed''"]
  note unresolved = findStoryPointsField_never_rejects
      [where pf = unresolved_service and baseUrl = "[]" and issueKey = "''AB-11''" and points = "''5''"]
  have 1: "findStoryPointsField (serving []) [] ''AB'' ''Story'' =
     ([(''Error finding story points field:'', TypeError ''fetch failed'')], Inr None)"
    using offline d by simp
  have 2: "snd (updateStoryPoints (serving []) [] ''AB-11'' ''5'') =
     ([], Inl (Error (notFoundMessage ''AB'')))"
    using offline d by (simp add: sample_projectKey)
  have 3: "snd (updateStoryPoints unresolved_service [] ''AB-11'' ''5'') =
     ([], Inl (Error (notFoundMessage ''AB'')))"
    using unresolved u by (simp add: sample_projectKey)
  have 4: "snd (findStoryPointsField unresolved_service [] ''AB'' ''Story'') = Inr None"
    using u by (simp add: findStoryPointsField_def)
  have 5: "findStoryPointsField unprobed_service [] ''AB'' ''Story'' =
     ([(''Error finding story points field:'', TypeError ''fetch failed'')], Inr None)"
    using unprobed u by simp
  from m 1 2 3 4 5 u sample_probes(2) show ?thesis
    by simp
qed

end
